theory Spec2Isabelle
  imports Main "HOL-Library.Word"
begin

unbundle bit_operations_syntax

section \<open>Machine types\<close>

text \<open>
  The model is the 64-bit build of the engine (\<^verbatim>\<open>_WIN64\<close>, \<^verbatim>\<open>is64Bit = true\<close>):
  \<^verbatim>\<open>uintptr_t\<close> and \<^verbatim>\<open>size_t\<close> are 64-bit words whose arithmetic wraps, a byte is an
  8-bit word, a \<^verbatim>\<open>DWORD\<close> a 32-bit word. Lengths of instructions and of hook
  prologues, which stay far below the word size, are natural numbers.
\<close>

type_synonym u8 = "8 word"
type_synonym DWORD = "32 word"
type_synonym uintptr_t = "64 word"
type_synonym size_t = "64 word"

definition is64Bit :: bool where
  "is64Bit = True"

section \<open>LengthDisassembler (DetoursLite.cpp)\<close>

text \<open>
  \<^verbatim>\<open>const uint8_t* data\<close> is a view of memory from a pointer on: \<open>data i\<close> is
  \<^verbatim>\<open>data[i]\<close>. The pointer has no extent in the source, so the view has none here.
  \<open>followed_by bs rest\<close> is the view that starts with the bytes \<open>bs\<close> and goes on with
  whatever memory \<open>rest\<close> lies behind them.
\<close>

definition followed_by :: "u8 list \<Rightarrow> (nat \<Rightarrow> u8) \<Rightarrow> nat \<Rightarrow> u8" where
  "followed_by bs rest i = (if i < length bs then bs ! i else rest (i - length bs))"

definition IsPrefix :: "u8 \<Rightarrow> bool" where
  "IsPrefix byte =
     (if byte = 0x26 \<or> byte = 0x2E \<or> byte = 0x36 \<or> byte = 0x3E \<or>
         byte = 0x64 \<or> byte = 0x65 then True
      else if byte = 0x66 then True
      else if byte = 0x67 then True
      else if byte = 0xF0 \<or> byte = 0xF2 \<or> byte = 0xF3 then True
      else if byte AND 0xF0 = 0x40 then True
      else False)"

definition IsRexPrefix :: "u8 \<Rightarrow> bool" where
  "IsRexPrefix byte = (byte AND 0xF0 = 0x40)"

definition GetModRMSize :: "u8 \<Rightarrow> bool \<Rightarrow> nat" where
  "GetModRMSize modRM hasRex =
     (let md = drop_bit 6 modRM AND 0x03;
          rm = modRM AND 0x07
      in if md = 0x00 then (if rm = 0x05 then 4 else if rm = 0x04 then 1 else 0)
         else if md = 0x01 then 1 + (if rm = 0x04 then 1 else 0)
         else if md = 0x02 then 4 + (if rm = 0x04 then 1 else 0)
         else 0)"

text \<open>
  \<open>opcode_and_size\<close> is the head of \<^verbatim>\<open>GetOpcodeSize\<close>: the opcode byte that the rest
  of the function classifies and the number of opcode bytes counted so far. After the
  escape \<^verbatim>\<open>0F\<close> the classified byte is \<^verbatim>\<open>data[1]\<close>, also for \<^verbatim>\<open>0F 38\<close> and \<^verbatim>\<open>0F 3A\<close>.
\<close>

definition opcode_and_size :: "(nat \<Rightarrow> u8) \<Rightarrow> u8 \<times> nat" where
  "opcode_and_size data =
     (if data 0 = 0x0F
      then (data 1, if data 1 = 0x38 \<or> data 1 = 0x3A then 3 else 2)
      else (data 0, 1))"

definition hasModRM :: "u8 \<Rightarrow> bool" where
  "hasModRM opcode =
     (opcode AND 0xFC = 0x80 \<or> opcode AND 0xFE = 0x88 \<or> opcode AND 0xFC = 0x8C \<or>
      opcode AND 0xFE = 0xC6 \<or> opcode AND 0xFC = 0xD0 \<or> opcode AND 0xFE = 0xF6 \<or>
      opcode AND 0xFE = 0xFE)"

definition GetOpcodeSize :: "(nat \<Rightarrow> u8) \<Rightarrow> bool \<Rightarrow> nat" where
  "GetOpcodeSize data hasRex =
     (case opcode_and_size data of (opcode, sz) \<Rightarrow>
        if (0x50 \<le> opcode \<and> opcode \<le> 0x5F) \<or> (0x90 \<le> opcode \<and> opcode \<le> 0x97) \<or>
           (0xA0 \<le> opcode \<and> opcode \<le> 0xA3) then sz
        else if opcode = 0xE8 \<or> opcode = 0xE9 then sz + 4
        else if opcode = 0xEB then sz + 1
        else if hasModRM opcode then
          (let sz' = sz + 1 + GetModRMSize (data sz) hasRex
           in if opcode AND 0xFC = 0x80 \<or> opcode AND 0xFE = 0xC6
              then (if opcode AND 1 = 0 then sz' + 1 else sz' + 4)
              else sz')
        else sz)"

text \<open>
  The prefix loop of \<^verbatim>\<open>GetLength\<close>. Nothing in the source bounds it: on a view that
  holds prefix bytes only it never leaves the loop, which is the value \<open>None\<close>.
\<close>

partial_function (option) skip_prefixes ::
  "(nat \<Rightarrow> u8) \<Rightarrow> nat \<Rightarrow> bool \<Rightarrow> (nat \<times> bool) option" where
  "skip_prefixes data offset hasRex =
     (if IsPrefix (data offset)
      then skip_prefixes data (offset + 1) (if IsRexPrefix (data offset) then True else hasRex)
      else Some (offset, hasRex))"

declare skip_prefixes.simps [code]

definition GetLength :: "(nat \<Rightarrow> u8) \<Rightarrow> nat option" where
  "GetLength data =
     (case skip_prefixes data 0 False of
        None \<Rightarrow> None
      | Some (offset, hasRex) \<Rightarrow> Some (offset + GetOpcodeSize (\<lambda>i. data (offset + i)) hasRex))"

section \<open>The host operating system\<close>

text \<open>
  The engine runs inside a Windows process and reaches the system through
  \<^verbatim>\<open>VirtualQuery\<close>, \<^verbatim>\<open>VirtualProtect\<close>, \<^verbatim>\<open>VirtualAlloc\<close>, \<^verbatim>\<open>VirtualFree\<close> and structured
  exception handling. None of that is code of the repository, so the system is a record
  of functions over a state \<open>'os\<close> of its own, and every theorem holds for any such
  record. A system call reads and changes \<open>'os\<close> only; the bytes of memory are a
  separate component of the process state, changed by the engine's own copies.
  \<^item> \<open>VirtualQuery os a\<close>: the region that holds \<open>a\<close>, or \<open>None\<close> when the call returns 0;
  \<^item> \<open>VirtualProtect os a n p\<close>: the state after the change and the previous protection,
    or \<open>None\<close> when the call fails (and changes nothing);
  \<^item> \<open>VirtualAlloc os n\<close>: the state after the allocation and its address, 0 on failure;
  \<^item> \<open>VirtualFree os a\<close>: the state after the release;
  \<^item> \<open>access_violation os k a\<close>: touching byte \<open>a\<close> for access \<open>k\<close> raises an access
    violation;
  \<^item> \<open>faulted_copy os m dst bs\<close>: the memory that \<^verbatim>\<open>memcpy\<close> of \<open>bs\<close> to \<open>dst\<close> leaves behind
    when one of its stores raises an access violation. Which stores the C runtime has
    made by then is its own matter (it copies in wide words, in either direction).
  The constants are those of the Windows SDK headers.
\<close>

datatype access = Read | Write

record MEMORY_BASIC_INFORMATION =
  BaseAddress :: uintptr_t
  RegionSize :: size_t
  State :: DWORD
  Protect :: DWORD

definition MEM_COMMIT :: DWORD where "MEM_COMMIT = 0x1000"
definition PAGE_NOACCESS :: DWORD where "PAGE_NOACCESS = 0x01"
definition PAGE_READONLY :: DWORD where "PAGE_READONLY = 0x02"
definition PAGE_READWRITE :: DWORD where "PAGE_READWRITE = 0x04"
definition PAGE_WRITECOPY :: DWORD where "PAGE_WRITECOPY = 0x08"
definition PAGE_EXECUTE :: DWORD where "PAGE_EXECUTE = 0x10"
definition PAGE_EXECUTE_READ :: DWORD where "PAGE_EXECUTE_READ = 0x20"
definition PAGE_EXECUTE_READWRITE :: DWORD where "PAGE_EXECUTE_READWRITE = 0x40"
definition PAGE_EXECUTE_WRITECOPY :: DWORD where "PAGE_EXECUTE_WRITECOPY = 0x80"

record 'os host =
  VirtualQuery :: "'os \<Rightarrow> uintptr_t \<Rightarrow> MEMORY_BASIC_INFORMATION option"
  VirtualProtect :: "'os \<Rightarrow> uintptr_t \<Rightarrow> size_t \<Rightarrow> DWORD \<Rightarrow> ('os \<times> DWORD) option"
  VirtualAlloc :: "'os \<Rightarrow> size_t \<Rightarrow> 'os \<times> uintptr_t"
  VirtualFree :: "'os \<Rightarrow> uintptr_t \<Rightarrow> 'os"
  access_violation :: "'os \<Rightarrow> access \<Rightarrow> uintptr_t \<Rightarrow> bool"
  faulted_copy :: "'os \<Rightarrow> (uintptr_t \<Rightarrow> u8) \<Rightarrow> uintptr_t \<Rightarrow> u8 list \<Rightarrow> (uintptr_t \<Rightarrow> u8)"

text \<open>
  The state of the process: the bytes of its address space, the state of the system, and
  the static registry \<^verbatim>\<open>DetoursLite::trampolines\<close>. (The critical section is not
  modelled: every operation below runs alone.)
\<close>

record Trampoline =
  originalFunction :: uintptr_t
  trampolineAddress :: uintptr_t
  originalSize :: nat
  originalBytes :: "u8 list"
  isActive :: bool

record 'os process =
  memory :: "uintptr_t \<Rightarrow> u8"
  os :: "'os"
  trampolines :: "Trampoline list"

text \<open>
  What the C++ does beyond returning a value: \<^verbatim>\<open>std::vector::resize\<close> raises
  \<^verbatim>\<open>std::length_error\<close> for a size above \<^verbatim>\<open>max_size()\<close>, and an index past the end of a
  buffer is undefined behaviour, which the model stops at as \<open>out_of_bounds\<close>.
  \<open>vector_max_size\<close> is \<^verbatim>\<open>max_size()\<close> of a byte vector in a 64-bit build
  (\<^verbatim>\<open>PTRDIFF_MAX\<close>); a failed allocation below that size is not modelled.
\<close>

datatype fault = length_error | out_of_bounds

definition vector_max_size :: nat where
  "vector_max_size = 2 ^ 63 - 1"

section \<open>Safe memory access (MemoryEngine.cpp)\<close>

definition IsAddressValid :: "'os host \<Rightarrow> 'os process \<Rightarrow> uintptr_t \<Rightarrow> size_t \<Rightarrow> bool" where
  "IsAddressValid h s address sz =
     (if address = 0 then False
      else case VirtualQuery h (os s) address of
             None \<Rightarrow> False
           | Some mbi \<Rightarrow>
               if State mbi \<noteq> MEM_COMMIT then False
               else (let endAddress = address + sz - 1;
                         regionEnd = BaseAddress mbi + RegionSize mbi - 1
                     in endAddress \<le> regionEnd))"

definition readable_mask :: DWORD where
  "readable_mask = PAGE_READONLY OR PAGE_READWRITE OR PAGE_EXECUTE_READ OR
                   PAGE_EXECUTE_READWRITE OR PAGE_WRITECOPY OR PAGE_EXECUTE_WRITECOPY"

definition writable_mask :: DWORD where
  "writable_mask = PAGE_READWRITE OR PAGE_EXECUTE_READWRITE OR
                   PAGE_WRITECOPY OR PAGE_EXECUTE_WRITECOPY"

text \<open>
  \<^verbatim>\<open>IsAddressReadable\<close> queries the region a second time without looking at the call's
  result; in the same state the call gives what it gave \<^verbatim>\<open>IsAddressValid\<close>.
\<close>

definition IsAddressReadable :: "'os host \<Rightarrow> 'os process \<Rightarrow> uintptr_t \<Rightarrow> size_t \<Rightarrow> bool" where
  "IsAddressReadable h s address sz =
     (if \<not> IsAddressValid h s address sz then False
      else case VirtualQuery h (os s) address of
             None \<Rightarrow> False
           | Some mbi \<Rightarrow> Protect mbi AND readable_mask \<noteq> 0)"

definition IsAddressWritable :: "'os host \<Rightarrow> 'os process \<Rightarrow> uintptr_t \<Rightarrow> size_t \<Rightarrow> bool" where
  "IsAddressWritable h s address sz =
     (if \<not> IsAddressValid h s address sz then False
      else case VirtualQuery h (os s) address of
             None \<Rightarrow> False
           | Some mbi \<Rightarrow> Protect mbi AND writable_mask \<noteq> 0)"

text \<open>
  \<^verbatim>\<open>SafeMemcpy\<close> into a local buffer, under \<^verbatim>\<open>__try\<close>: the bytes copied, or \<open>None\<close> when
  reading one of them raises an access violation (\<^verbatim>\<open>__except\<close> returns false).
\<close>

definition SafeMemcpy :: "'os host \<Rightarrow> 'os process \<Rightarrow> uintptr_t \<Rightarrow> nat \<Rightarrow> u8 list option" where
  "SafeMemcpy h s src n =
     (if list_ex (\<lambda>i. access_violation h (os s) Read (src + of_nat i)) [0..<n] then None
      else Some (map (\<lambda>i. memory s (src + of_nat i)) [0..<n]))"

definition SafeReadBytes :: "'os host \<Rightarrow> 'os process \<Rightarrow> uintptr_t \<Rightarrow> size_t \<Rightarrow> fault + u8 list" where
  "SafeReadBytes h s address sz =
     (if \<not> IsAddressReadable h s address sz then Inr []
      else if vector_max_size < unat sz then Inl length_error
      else case SafeMemcpy h s address (unat sz) of
             None \<Rightarrow> Inr []
           | Some buffer \<Rightarrow> Inr buffer)"

text \<open>\<^verbatim>\<open>memcpy\<close> into the address space: the memory with \<open>bs\<close> stored from \<open>dst\<close> on.\<close>

fun memcpy :: "(uintptr_t \<Rightarrow> u8) \<Rightarrow> uintptr_t \<Rightarrow> u8 list \<Rightarrow> (uintptr_t \<Rightarrow> u8)" where
  "memcpy m dst [] = m"
| "memcpy m dst (b # bs) = memcpy (m(dst := b)) (dst + 1) bs"

text \<open>
  The \<^verbatim>\<open>memcpy\<close> of \<^verbatim>\<open>SafeWriteMemory\<close>, under \<^verbatim>\<open>__try\<close>: when no byte of the target raises
  an access violation all of \<open>bs\<close> is stored; when one does, \<^verbatim>\<open>__except\<close> takes over,
  the flag is \<open>False\<close> and memory is what the interrupted copy left.
\<close>

definition memcpy_guarded ::
  "'os host \<Rightarrow> 'os \<Rightarrow> (uintptr_t \<Rightarrow> u8) \<Rightarrow> uintptr_t \<Rightarrow> u8 list \<Rightarrow> (uintptr_t \<Rightarrow> u8) \<times> bool" where
  "memcpy_guarded h os0 m dst bs =
     (if list_ex (\<lambda>i. access_violation h os0 Write (dst + of_nat i)) [0..<length bs]
      then (faulted_copy h os0 m dst bs, False)
      else (memcpy m dst bs, True))"

definition SafeWriteMemory :: "'os host \<Rightarrow> 'os process \<Rightarrow> uintptr_t \<Rightarrow> u8 list \<Rightarrow> bool \<times> 'os process" where
  "SafeWriteMemory h s address data =
     (case VirtualProtect h (os s) address (of_nat (length data)) PAGE_EXECUTE_READWRITE of
        None \<Rightarrow> (False, s)
      | Some (os1, oldProtect) \<Rightarrow>
          (case memcpy_guarded h os1 (memory s) address data of
             (m, False) \<Rightarrow> (False, s\<lparr>memory := m, os := os1\<rparr>)
           | (m, True) \<Rightarrow>
               (True, s\<lparr>memory := m,
                        os := (case VirtualProtect h os1 address (of_nat (length data)) oldProtect of
                                 None \<Rightarrow> os1
                               | Some (os2, _) \<Rightarrow> os2)\<rparr>)))"

definition SafeWriteBytes :: "'os host \<Rightarrow> 'os process \<Rightarrow> uintptr_t \<Rightarrow> u8 list \<Rightarrow> bool \<times> 'os process" where
  "SafeWriteBytes h s address bytes =
     (if bytes = [] \<or> \<not> IsAddressValid h s address (of_nat (length bytes)) then (False, s)
      else SafeWriteMemory h s address bytes)"

section \<open>Pointer chains (MemoryEngine.cpp)\<close>

fun le_decode :: "u8 list \<Rightarrow> uintptr_t" where
  "le_decode [] = 0"
| "le_decode (b # bs) = ucast b OR push_bit 8 (le_decode bs)"

text \<open>\<^verbatim>\<open>SafeRead<uintptr_t>\<close>: the readability test, then an 8-byte copy under \<^verbatim>\<open>__try\<close>.\<close>

definition SafeRead_uintptr :: "'os host \<Rightarrow> 'os process \<Rightarrow> uintptr_t \<Rightarrow> uintptr_t option" where
  "SafeRead_uintptr h s address =
     (if \<not> IsAddressReadable h s address 8 then None
      else case SafeMemcpy h s address 8 of
             None \<Rightarrow> None
           | Some bs \<Rightarrow> Some (le_decode bs))"

text \<open>The \<^verbatim>\<open>for\<close> loop of \<^verbatim>\<open>FollowPointerChain\<close>, from index \<open>i\<close> on.\<close>

function FollowPointerChain_from ::
  "'os host \<Rightarrow> 'os process \<Rightarrow> uintptr_t list \<Rightarrow> nat \<Rightarrow> uintptr_t \<Rightarrow> uintptr_t option" where
  "FollowPointerChain_from h s offsets i currentAddress =
     (if i < length offsets then
        (case SafeRead_uintptr h s currentAddress of
           None \<Rightarrow> None
         | Some ptrValue \<Rightarrow>
             (let currentAddress' = ptrValue + offsets ! i
              in if i < length offsets - 1 \<and> \<not> IsAddressReadable h s currentAddress' 8
                 then None
                 else FollowPointerChain_from h s offsets (i + 1) currentAddress'))
      else Some currentAddress)"
  by pat_completeness auto
termination
  by (relation "measure (\<lambda>(h, s, offsets, i, a). length offsets - i)") auto

declare FollowPointerChain_from.simps [simp del]

definition FollowPointerChain ::
  "'os host \<Rightarrow> 'os process \<Rightarrow> uintptr_t \<Rightarrow> uintptr_t list \<Rightarrow> uintptr_t option" where
  "FollowPointerChain h s baseAddress offsets = FollowPointerChain_from h s offsets 0 baseAddress"

text \<open>
  The pointer chain as the specification words it: start at the base \<open>p\<close>; for each offset
  in order, require that \<open>[p, p + 8)\<close> is readable, read the word \<open>q\<close> there and set
  \<open>p = q + offset\<close>; after the last offset return \<open>p\<close>, not dereferenced; an unreadable
  address on the way is a failure.
  \<^item> \<open>word_at m p\<close> is the pointer-sized word that memory holds at \<open>p\<close>: the eight bytes
    from \<open>p\<close> on, the lowest first.
  \<^item> \<open>word_readable h s p\<close>: the range \<open>[p, p + 8)\<close> passes the readability test of the
    access layer (a committed region with read permission that covers the range), and
    none of its eight bytes raises an access violation when read.
\<close>

definition word_at :: "(uintptr_t \<Rightarrow> u8) \<Rightarrow> uintptr_t \<Rightarrow> uintptr_t" where
  "word_at m p =
     ucast (m p) OR push_bit 8 (ucast (m (p + 1))) OR push_bit 16 (ucast (m (p + 2))) OR
     push_bit 24 (ucast (m (p + 3))) OR push_bit 32 (ucast (m (p + 4))) OR
     push_bit 40 (ucast (m (p + 5))) OR push_bit 48 (ucast (m (p + 6))) OR
     push_bit 56 (ucast (m (p + 7)))"

definition word_readable :: "'os host \<Rightarrow> 'os process \<Rightarrow> uintptr_t \<Rightarrow> bool" where
  "word_readable h s p =
     (IsAddressReadable h s p 8 \<and>
      list_all (\<lambda>i. \<not> access_violation h (os s) Read (p + of_nat i)) [0..<8])"

fun pointer_chain_spec ::
  "'os host \<Rightarrow> 'os process \<Rightarrow> uintptr_t \<Rightarrow> uintptr_t list \<Rightarrow> uintptr_t option" where
  "pointer_chain_spec h s p [] = Some p"
| "pointer_chain_spec h s p (off # offsets) =
     (if word_readable h s p
      then pointer_chain_spec h s (word_at (memory s) p + off) offsets
      else None)"

section \<open>The scanner (MemoryEngine.cpp)\<close>

datatype TriState = Any | Yes | No

record MemoryRegion =
  baseAddress :: uintptr_t
  size' :: size_t
  protection :: DWORD
  readable :: bool
  writable :: bool
  executable :: bool

record ScanResult =
  address :: uintptr_t
  value' :: "u8 list"
  type' :: string
  previousValue :: "u8 list"

record ScanOptions =
  startAddress :: uintptr_t
  endAddress :: uintptr_t
  alignment :: size_t
  filterWritable :: TriState
  filterExecutable :: TriState
  filterCopyOnWrite :: TriState
  previousResults :: "ScanResult list option"

text \<open>
  \<^verbatim>\<open>memcmp(a, b, n) == 0\<close> on two buffers: comparing more bytes than a buffer holds
  reads past its end.
\<close>

definition memcmp_eq :: "u8 list \<Rightarrow> u8 list \<Rightarrow> nat \<Rightarrow> fault + bool" where
  "memcmp_eq a b n =
     (if length a < n \<or> length b < n then Inl out_of_bounds else Inr (take n a = take n b))"

subsection \<open>NextScan\<close>

definition CompareNumericValues :: "int \<Rightarrow> int \<Rightarrow> string \<Rightarrow> bool" where
  "CompareNumericValues current previous scanType =
     (if scanType = ''increased'' then previous < current
      else if scanType = ''decreased'' then current < previous
      else False)"

definition le_int32 :: "u8 list \<Rightarrow> int" where
  "le_int32 bs = sint (ucast (le_decode (take 4 bs)) :: 32 word)"

definition le_int64 :: "u8 list \<Rightarrow> int" where
  "le_int64 bs = sint (le_decode (take 8 bs))"

text \<open>
  The test of one previous result against the bytes just read. Two parts of it are
  parameters: \<open>StringToValue\<close> (the literal's parser, which calls \<^verbatim>\<open>std::stoi\<close> and
  \<^verbatim>\<open>std::stof\<close>) and \<open>CompareFloats\<close> (\<^verbatim>\<open>CompareNumericValues\<close> on IEEE floats and
  doubles decoded from the two buffers).
\<close>

definition NextScan_match ::
  "(string \<Rightarrow> string \<Rightarrow> u8 list) \<Rightarrow> (string \<Rightarrow> u8 list \<Rightarrow> u8 list \<Rightarrow> string \<Rightarrow> bool) \<Rightarrow>
   string \<Rightarrow> string \<Rightarrow> ScanResult \<Rightarrow> u8 list \<Rightarrow> fault + bool" where
  "NextScan_match StringToValue CompareFloats scanType val prevResult currentValueBytes =
     (if scanType = ''exact'' then
        (let valueToCompare = StringToValue val (type' prevResult)
         in if valueToCompare = [] then Inr False
            else memcmp_eq currentValueBytes valueToCompare (length currentValueBytes))
      else if scanType = ''unchanged'' then
        (case memcmp_eq currentValueBytes (value' prevResult) (length currentValueBytes) of
           Inl e \<Rightarrow> Inl e | Inr eq \<Rightarrow> Inr eq)
      else if scanType = ''changed'' then
        (case memcmp_eq currentValueBytes (value' prevResult) (length currentValueBytes) of
           Inl e \<Rightarrow> Inl e | Inr eq \<Rightarrow> Inr (\<not> eq))
      else if type' prevResult = ''int32'' then
        (if length currentValueBytes < 4 \<or> length (value' prevResult) < 4 then Inl out_of_bounds
         else Inr (CompareNumericValues (le_int32 currentValueBytes)
                     (le_int32 (value' prevResult)) scanType))
      else if type' prevResult = ''int64'' then
        (if length currentValueBytes < 8 \<or> length (value' prevResult) < 8 then Inl out_of_bounds
         else Inr (CompareNumericValues (le_int64 currentValueBytes)
                     (le_int64 (value' prevResult)) scanType))
      else if type' prevResult = ''float'' then
        (if length currentValueBytes < 4 \<or> length (value' prevResult) < 4 then Inl out_of_bounds
         else Inr (CompareFloats ''float'' currentValueBytes (value' prevResult) scanType))
      else if type' prevResult = ''double'' then
        (if length currentValueBytes < 8 \<or> length (value' prevResult) < 8 then Inl out_of_bounds
         else Inr (CompareFloats ''double'' currentValueBytes (value' prevResult) scanType))
      else Inr False)"

text \<open>The loop of \<^verbatim>\<open>NextScan\<close> over the previous results, \<open>newResults\<close> collected so far.\<close>

fun NextScan_loop ::
  "'os host \<Rightarrow> 'os process \<Rightarrow> (string \<Rightarrow> string \<Rightarrow> u8 list) \<Rightarrow>
   (string \<Rightarrow> u8 list \<Rightarrow> u8 list \<Rightarrow> string \<Rightarrow> bool) \<Rightarrow> string \<Rightarrow> string \<Rightarrow>
   ScanResult list \<Rightarrow> ScanResult list \<Rightarrow> fault + ScanResult list" where
  "NextScan_loop h s StringToValue CompareFloats scanType val [] newResults = Inr newResults"
| "NextScan_loop h s StringToValue CompareFloats scanType val (prevResult # rest) newResults =
     (case SafeReadBytes h s (address prevResult) (of_nat (length (value' prevResult))) of
        Inl e \<Rightarrow> Inl e
      | Inr currentValueBytes \<Rightarrow>
          if currentValueBytes = [] \<or> length currentValueBytes \<noteq> length (value' prevResult)
          then NextScan_loop h s StringToValue CompareFloats scanType val rest newResults
          else
            (case NextScan_match StringToValue CompareFloats scanType val prevResult
                    currentValueBytes of
               Inl e \<Rightarrow> Inl e
             | Inr match \<Rightarrow>
                 NextScan_loop h s StringToValue CompareFloats scanType val rest
                   (if match
                    then newResults @
                         [\<lparr>address = address prevResult, value' = currentValueBytes,
                           type' = type' prevResult, previousValue = value' prevResult\<rparr>]
                    else newResults)))"

definition NextScan ::
  "'os host \<Rightarrow> 'os process \<Rightarrow> (string \<Rightarrow> string \<Rightarrow> u8 list) \<Rightarrow>
   (string \<Rightarrow> u8 list \<Rightarrow> u8 list \<Rightarrow> string \<Rightarrow> bool) \<Rightarrow> string \<Rightarrow> string \<Rightarrow>
   ScanOptions \<Rightarrow> fault + ScanResult list" where
  "NextScan h s StringToValue CompareFloats scanType val options =
     (case previousResults options of
        None \<Rightarrow> Inr []
      | Some prev \<Rightarrow>
          if prev = [] then Inr []
          else NextScan_loop h s StringToValue CompareFloats scanType val prev [])"

subsection \<open>The scan loops over the block read from a region\<close>

definition checkState :: "TriState \<Rightarrow> bool \<Rightarrow> bool" where
  "checkState state condition =
     (if state = Yes \<and> \<not> condition then False
      else if state = No \<and> condition then False
      else True)"

definition IsRegionScannable :: "MemoryRegion \<Rightarrow> ScanOptions \<Rightarrow> bool" where
  "IsRegionScannable region options =
     (if \<not> readable region then False
      else if \<not> checkState (filterWritable options) (writable region) then False
      else if \<not> checkState (filterExecutable options) (executable region) then False
      else if filterCopyOnWrite options = Yes \<and>
              \<not> (protection region AND PAGE_WRITECOPY \<noteq> 0 \<or>
                 protection region AND PAGE_EXECUTE_WRITECOPY \<noteq> 0) then False
      else if filterCopyOnWrite options = No \<and>
              (protection region AND PAGE_WRITECOPY \<noteq> 0 \<or>
               protection region AND PAGE_EXECUTE_WRITECOPY \<noteq> 0) then False
      else True)"

text \<open>
  The inner loop of \<^verbatim>\<open>FirstScan\<close>,
  \<^verbatim>\<open>for (size_t i = 0; i <= regionData.size() - valueBytes.size(); i += options.alignment)\<close>,
  from position \<open>i\<close> on. The bound is a difference of two \<^verbatim>\<open>size_t\<close> and wraps; \<open>i\<close>
  wraps too. \<open>None\<close>: the loop never ends (alignment 0).
\<close>

partial_function (option) FirstScan_block ::
  "u8 list \<Rightarrow> u8 list \<Rightarrow> string \<Rightarrow> size_t \<Rightarrow> uintptr_t \<Rightarrow> size_t \<Rightarrow> ScanResult list \<Rightarrow>
   (fault + ScanResult list) option" where
  "FirstScan_block regionData valueBytes ty align start i results =
     (if i \<le> of_nat (length regionData) - of_nat (length valueBytes) then
        (if isl (memcmp_eq (drop (unat i) regionData) valueBytes (length valueBytes))
         then Some (Inl (projl (memcmp_eq (drop (unat i) regionData) valueBytes (length valueBytes))))
         else FirstScan_block regionData valueBytes ty align start (i + align)
                (if projr (memcmp_eq (drop (unat i) regionData) valueBytes (length valueBytes))
                 then results @ [\<lparr>address = start + i, value' = valueBytes, type' = ty,
                                  previousValue = []\<rparr>]
                 else results))
      else Some (Inr results))"

declare FirstScan_block.simps [code]

text \<open>The loop over the regions; \<open>regions\<close> is what \<^verbatim>\<open>GetMemoryRegions\<close> returned.\<close>

fun FirstScan_regions ::
  "'os host \<Rightarrow> 'os process \<Rightarrow> u8 list \<Rightarrow> string \<Rightarrow> ScanOptions \<Rightarrow> MemoryRegion list \<Rightarrow>
   ScanResult list \<Rightarrow> (fault + ScanResult list) option" where
  "FirstScan_regions h s valueBytes ty options [] results = Some (Inr results)"
| "FirstScan_regions h s valueBytes ty options (region # regions) results =
     (if \<not> IsRegionScannable region options
      then FirstScan_regions h s valueBytes ty options regions results
      else
        (let start = max (baseAddress region) (startAddress options);
             end' = (if endAddress options = 0 then baseAddress region + size' region
                     else min (baseAddress region + size' region) (endAddress options))
         in if end' \<le> start then FirstScan_regions h s valueBytes ty options regions results
            else
              (case SafeReadBytes h s start (end' - start) of
                 Inl e \<Rightarrow> Some (Inl e)
               | Inr regionData \<Rightarrow>
                   if regionData = []
                   then FirstScan_regions h s valueBytes ty options regions results
                   else
                     (case FirstScan_block regionData valueBytes ty (alignment options) start 0
                             results of
                        None \<Rightarrow> None
                      | Some (Inl e) \<Rightarrow> Some (Inl e)
                      | Some (Inr results') \<Rightarrow>
                          FirstScan_regions h s valueBytes ty options regions results'))))"

definition FirstScan ::
  "'os host \<Rightarrow> 'os process \<Rightarrow> (string \<Rightarrow> string \<Rightarrow> u8 list) \<Rightarrow> string \<Rightarrow> string \<Rightarrow>
   ScanOptions \<Rightarrow> MemoryRegion list \<Rightarrow> (fault + ScanResult list) option" where
  "FirstScan h s StringToValue val ty options regions =
     (let valueBytes = StringToValue val ty
      in if valueBytes = [] then Some (Inr [])
         else FirstScan_regions h s valueBytes ty options regions [])"

text \<open>\<^verbatim>\<open>ScanForValue\<close>: the same loops, with \<^verbatim>\<open>CompareBytes\<close> and the type tag "bytes".\<close>

definition CompareBytes :: "u8 list \<Rightarrow> u8 list \<Rightarrow> nat \<Rightarrow> fault + bool" where
  "CompareBytes data pattern n = memcmp_eq data pattern n"

partial_function (option) ScanForValue_block ::
  "u8 list \<Rightarrow> u8 list \<Rightarrow> size_t \<Rightarrow> uintptr_t \<Rightarrow> size_t \<Rightarrow> ScanResult list \<Rightarrow>
   (fault + ScanResult list) option" where
  "ScanForValue_block regionData val align start i results =
     (if i \<le> of_nat (length regionData) - of_nat (length val) then
        (if isl (CompareBytes (drop (unat i) regionData) val (length val))
         then Some (Inl (projl (CompareBytes (drop (unat i) regionData) val (length val))))
         else ScanForValue_block regionData val align start (i + align)
                (if projr (CompareBytes (drop (unat i) regionData) val (length val))
                 then results @ [\<lparr>address = start + i, value' = val, type' = ''bytes'',
                                  previousValue = []\<rparr>]
                 else results))
      else Some (Inr results))"

declare ScanForValue_block.simps [code]

fun ScanForValue_regions ::
  "'os host \<Rightarrow> 'os process \<Rightarrow> u8 list \<Rightarrow> ScanOptions \<Rightarrow> MemoryRegion list \<Rightarrow>
   ScanResult list \<Rightarrow> (fault + ScanResult list) option" where
  "ScanForValue_regions h s val options [] results = Some (Inr results)"
| "ScanForValue_regions h s val options (region # regions) results =
     (if \<not> IsRegionScannable region options
      then ScanForValue_regions h s val options regions results
      else
        (let start = max (baseAddress region) (startAddress options);
             end' = (if endAddress options = 0 then baseAddress region + size' region
                     else min (baseAddress region + size' region) (endAddress options))
         in if end' \<le> start then ScanForValue_regions h s val options regions results
            else
              (case SafeReadBytes h s start (end' - start) of
                 Inl e \<Rightarrow> Some (Inl e)
               | Inr regionData \<Rightarrow>
                   if regionData = []
                   then ScanForValue_regions h s val options regions results
                   else
                     (case ScanForValue_block regionData val (alignment options) start 0
                             results of
                        None \<Rightarrow> None
                      | Some (Inl e) \<Rightarrow> Some (Inl e)
                      | Some (Inr results') \<Rightarrow>
                          ScanForValue_regions h s val options regions results'))))"

definition ScanForValue ::
  "'os host \<Rightarrow> 'os process \<Rightarrow> u8 list \<Rightarrow> ScanOptions \<Rightarrow> MemoryRegion list \<Rightarrow>
   (fault + ScanResult list) option" where
  "ScanForValue h s val options regions =
     (if val = [] then Some (Inr []) else ScanForValue_regions h s val options regions [])"

text \<open>
  \<^verbatim>\<open>ComparePattern\<close>: the loop over the mask, from index \<open>i\<close> on, \<open>msk\<close> being what is
  left of the mask. \<open>data\<close> is the block from the tested position on; the pattern is a
  \<^verbatim>\<open>std::string\<close>, whose \<^verbatim>\<open>operator[]\<close> gives 0 at its length and is undefined beyond.
\<close>

fun ComparePattern_loop :: "u8 list \<Rightarrow> u8 list \<Rightarrow> string \<Rightarrow> nat \<Rightarrow> fault + bool" where
  "ComparePattern_loop data pattern [] i = Inr True"
| "ComparePattern_loop data pattern (c # msk) i =
     (if c = CHR ''x'' then
        (if length data \<le> i \<or> length pattern < i then Inl out_of_bounds
         else if data ! i \<noteq> (if i < length pattern then pattern ! i else 0) then Inr False
         else ComparePattern_loop data pattern msk (i + 1))
      else ComparePattern_loop data pattern msk (i + 1))"

definition ComparePattern :: "u8 list \<Rightarrow> u8 list \<Rightarrow> string \<Rightarrow> fault + bool" where
  "ComparePattern data pattern msk = ComparePattern_loop data pattern msk 0"

partial_function (option) PatternScanAll_block ::
  "u8 list \<Rightarrow> u8 list \<Rightarrow> string \<Rightarrow> uintptr_t \<Rightarrow> size_t \<Rightarrow> uintptr_t list \<Rightarrow>
   (fault + uintptr_t list) option" where
  "PatternScanAll_block data pattern msk regionStart i results =
     (if i \<le> of_nat (length data) - of_nat (length pattern) then
        (if isl (ComparePattern (drop (unat i) data) pattern msk)
         then Some (Inl (projl (ComparePattern (drop (unat i) data) pattern msk)))
         else PatternScanAll_block data pattern msk regionStart (i + 1)
                (if projr (ComparePattern (drop (unat i) data) pattern msk)
                 then results @ [regionStart + i]
                 else results))
      else Some (Inr results))"

declare PatternScanAll_block.simps [code]

fun PatternScanAll_regions ::
  "'os host \<Rightarrow> 'os process \<Rightarrow> u8 list \<Rightarrow> string \<Rightarrow> uintptr_t \<Rightarrow> uintptr_t \<Rightarrow>
   MemoryRegion list \<Rightarrow> uintptr_t list \<Rightarrow> (fault + uintptr_t list) option" where
  "PatternScanAll_regions h s pattern msk start end' [] results = Some (Inr results)"
| "PatternScanAll_regions h s pattern msk start end' (region # regions) results =
     (if \<not> readable region
      then PatternScanAll_regions h s pattern msk start end' regions results
      else
        (let regionStart = max (baseAddress region) start;
             regionEnd = min (baseAddress region + size' region) end'
         in if regionEnd \<le> regionStart
            then PatternScanAll_regions h s pattern msk start end' regions results
            else
              (case SafeReadBytes h s regionStart (regionEnd - regionStart) of
                 Inl e \<Rightarrow> Some (Inl e)
               | Inr data \<Rightarrow>
                   if data = []
                   then PatternScanAll_regions h s pattern msk start end' regions results
                   else
                     (case PatternScanAll_block data pattern msk regionStart 0 results of
                        None \<Rightarrow> None
                      | Some (Inl e) \<Rightarrow> Some (Inl e)
                      | Some (Inr results') \<Rightarrow>
                          PatternScanAll_regions h s pattern msk start end' regions results'))))"

text \<open>
  \<open>moduleBase\<close> and \<open>moduleSize\<close> are what \<^verbatim>\<open>GetModuleBase()\<close> and \<^verbatim>\<open>GetModuleSize()\<close>
  return for the main module.
\<close>

definition PatternScanAll ::
  "'os host \<Rightarrow> 'os process \<Rightarrow> uintptr_t \<Rightarrow> size_t \<Rightarrow> u8 list \<Rightarrow> string \<Rightarrow> uintptr_t \<Rightarrow>
   uintptr_t \<Rightarrow> MemoryRegion list \<Rightarrow> (fault + uintptr_t list) option" where
  "PatternScanAll h s moduleBase moduleSize pattern msk start end' regions =
     (let start1 = (if start = 0 then moduleBase else start);
          end1 = (if end' = 0 then start1 + moduleSize else end')
      in PatternScanAll_regions h s pattern msk start1 end1 regions [])"

section \<open>The detour engine (DetoursLite.cpp)\<close>

datatype HookType = JMP_RELATIVE | JMP_ABSOLUTE | PUSH_RET | AUTO

text \<open>
  Raw pointer accesses. The detour engine reads and writes its target and its trampoline
  through plain pointers, with no guard: the model takes those bytes to be accessible.
  \<open>view m p\<close> is the pointer \<open>p\<close> as a \<^verbatim>\<open>const uint8_t*\<close>.
\<close>

definition view :: "(uintptr_t \<Rightarrow> u8) \<Rightarrow> uintptr_t \<Rightarrow> nat \<Rightarrow> u8" where
  "view m p i = m (p + of_nat i)"

definition memset :: "(uintptr_t \<Rightarrow> u8) \<Rightarrow> uintptr_t \<Rightarrow> u8 \<Rightarrow> nat \<Rightarrow> (uintptr_t \<Rightarrow> u8)" where
  "memset m dst v n = memcpy m dst (replicate n v)"

definition read_bytes :: "(uintptr_t \<Rightarrow> u8) \<Rightarrow> uintptr_t \<Rightarrow> nat \<Rightarrow> u8 list" where
  "read_bytes m src n = map (\<lambda>i. m (src + of_nat i)) [0..<n]"

definition bytes_of_u32 :: "32 word \<Rightarrow> u8 list" where
  "bytes_of_u32 w = [ucast w, ucast (drop_bit 8 w), ucast (drop_bit 16 w), ucast (drop_bit 24 w)]"

definition bytes_of_u64 :: "uintptr_t \<Rightarrow> u8 list" where
  "bytes_of_u64 w =
     [ucast w, ucast (drop_bit 8 w), ucast (drop_bit 16 w), ucast (drop_bit 24 w),
      ucast (drop_bit 32 w), ucast (drop_bit 40 w), ucast (drop_bit 48 w), ucast (drop_bit 56 w)]"

definition read_i32 :: "(uintptr_t \<Rightarrow> u8) \<Rightarrow> uintptr_t \<Rightarrow> 32 word" where
  "read_i32 m p =
     ucast (m p) OR push_bit 8 (ucast (m (p + 1))) OR push_bit 16 (ucast (m (p + 2))) OR
     push_bit 24 (ucast (m (p + 3)))"

definition IsHooked :: "'os process \<Rightarrow> uintptr_t \<Rightarrow> bool" where
  "IsHooked s addr = list_ex (\<lambda>t. originalFunction t = addr) (trampolines s)"

definition GetInstructionLength :: "(uintptr_t \<Rightarrow> u8) \<Rightarrow> uintptr_t \<Rightarrow> nat option" where
  "GetInstructionLength m addr = GetLength (view m addr)"

definition CalculateHookSize :: "HookType \<Rightarrow> nat" where
  "CalculateHookSize ty =
     (case ty of
        JMP_RELATIVE \<Rightarrow> 5
      | JMP_ABSOLUTE \<Rightarrow> (if is64Bit then 14 else 6)
      | PUSH_RET \<Rightarrow> (if is64Bit then 14 else 6)
      | AUTO \<Rightarrow> 5)"

definition CalculateRelativeOffset :: "uintptr_t \<Rightarrow> uintptr_t \<Rightarrow> 32 word" where
  "CalculateRelativeOffset from to = ucast (to - from)"

definition WriteJumpRelative ::
  "(uintptr_t \<Rightarrow> u8) \<Rightarrow> uintptr_t \<Rightarrow> uintptr_t \<Rightarrow> (uintptr_t \<Rightarrow> u8) \<times> bool" where
  "WriteJumpRelative m from to =
     (memcpy m from (0xE9 # bytes_of_u32 (CalculateRelativeOffset (from + 5) to)), True)"

text \<open>
  \<^verbatim>\<open>WriteJumpAbsolute\<close> and \<^verbatim>\<open>WritePushRet\<close>, as the 64-bit build runs them: the branch
  under \<^verbatim>\<open>is64Bit\<close>. (The other branch of \<^verbatim>\<open>WriteJumpAbsolute\<close> stores the address of its
  own parameter, which a 64-bit build never does.)
\<close>

definition WriteJumpAbsolute ::
  "(uintptr_t \<Rightarrow> u8) \<Rightarrow> uintptr_t \<Rightarrow> uintptr_t \<Rightarrow> (uintptr_t \<Rightarrow> u8) \<times> bool" where
  "WriteJumpAbsolute m from to =
     (memcpy m from ([0xFF, 0x25, 0x00, 0x00, 0x00, 0x00] @ bytes_of_u64 to), True)"

definition WritePushRet ::
  "(uintptr_t \<Rightarrow> u8) \<Rightarrow> uintptr_t \<Rightarrow> uintptr_t \<Rightarrow> (uintptr_t \<Rightarrow> u8) \<times> bool" where
  "WritePushRet m from to = (m, False)"

definition RelocateInstruction ::
  "(uintptr_t \<Rightarrow> u8) \<Rightarrow> uintptr_t \<Rightarrow> uintptr_t \<Rightarrow> uintptr_t \<Rightarrow> (uintptr_t \<Rightarrow> u8) \<times> bool" where
  "RelocateInstruction m instruction oldAddress newAddress =
     (if m instruction = 0xE8 \<or> m instruction = 0xE9 then
        (let offset = read_i32 m (instruction + 1);
             targetAddress = oldAddress + 5 + scast offset
         in (memcpy m (instruction + 1)
               (bytes_of_u32 (CalculateRelativeOffset (newAddress + 5) targetAddress)), True))
      else if m instruction = 0x0F \<and> m (instruction + 1) AND 0xF0 = 0x80 then
        (let offset = read_i32 m (instruction + 2);
             targetAddress = oldAddress + 6 + scast offset
         in (memcpy m (instruction + 2)
               (bytes_of_u32 (CalculateRelativeOffset (newAddress + 6) targetAddress)), True))
      else (m, True))"

text \<open>
  The relocation loop of \<^verbatim>\<open>BuildTrampoline\<close>, from offset \<open>i\<close> on. The result of
  \<^verbatim>\<open>RelocateInstruction\<close> is dropped, as in the source. \<open>None\<close>: the loop does not
  return (the prefix loop of \<^verbatim>\<open>GetLength\<close> runs on, or a length of 0 stops \<open>i\<close>).
\<close>

function BuildTrampoline_loop ::
  "(uintptr_t \<Rightarrow> u8) \<Rightarrow> uintptr_t \<Rightarrow> nat \<Rightarrow> uintptr_t \<Rightarrow> uintptr_t \<Rightarrow> nat \<Rightarrow>
   (uintptr_t \<Rightarrow> u8) option" where
  "BuildTrampoline_loop m trampolineBuffer originalSize' originalAddress trampolineAddress' i =
     (if i < originalSize' then
        (case GetLength (view m (trampolineBuffer + of_nat i)) of
           None \<Rightarrow> None
         | Some instructionLength \<Rightarrow>
             if instructionLength = 0 then None
             else BuildTrampoline_loop
                    (fst (RelocateInstruction m (trampolineBuffer + of_nat i)
                            (originalAddress + of_nat i) (trampolineAddress' + of_nat i)))
                    trampolineBuffer originalSize' originalAddress trampolineAddress'
                    (i + instructionLength))
      else Some m)"
  by pat_completeness auto
termination
  by (relation "measure (\<lambda>(m, b, n, oa, ta, i). n - i)") auto

declare BuildTrampoline_loop.simps [simp del]

definition BuildTrampoline ::
  "(uintptr_t \<Rightarrow> u8) \<Rightarrow> uintptr_t \<Rightarrow> u8 list \<Rightarrow> nat \<Rightarrow> uintptr_t \<Rightarrow> uintptr_t \<Rightarrow>
   (uintptr_t \<Rightarrow> u8) option" where
  "BuildTrampoline m trampolineBuffer originalBytes' originalSize' originalAddress trampolineAddress' =
     (case BuildTrampoline_loop (memcpy m trampolineBuffer (take originalSize' originalBytes'))
             trampolineBuffer originalSize' originalAddress trampolineAddress' 0 of
        None \<Rightarrow> None
      | Some m1 \<Rightarrow>
          Some (fst (WriteJumpRelative m1 (trampolineAddress' + of_nat originalSize')
                       (originalAddress + of_nat originalSize'))))"

definition CreateTrampoline :: "'os host \<Rightarrow> 'os \<Rightarrow> uintptr_t \<Rightarrow> nat \<Rightarrow> 'os \<times> uintptr_t" where
  "CreateTrampoline h os0 originalFunction' hookSize =
     VirtualAlloc h os0 (of_nat (hookSize + (if is64Bit then 14 else 5)))"

definition SetMemoryProtection ::
  "'os host \<Rightarrow> 'os \<Rightarrow> uintptr_t \<Rightarrow> nat \<Rightarrow> DWORD \<Rightarrow> ('os \<times> DWORD) option" where
  "SetMemoryProtection h os0 addr n prot = VirtualProtect h os0 addr (of_nat n) prot"

text \<open>
  The loop of \<^verbatim>\<open>InstallHook\<close> that adds up instruction lengths until they cover the
  hook. \<open>None\<close>: it does not return; \<open>Some None\<close>: an instruction of length 0, for which
  \<^verbatim>\<open>InstallHook\<close> returns false; \<open>Some (Some n)\<close>: \<^verbatim>\<open>bytesToCopy\<close>.
\<close>

function count_prologue ::
  "(uintptr_t \<Rightarrow> u8) \<Rightarrow> uintptr_t \<Rightarrow> nat \<Rightarrow> nat \<Rightarrow> nat option option" where
  "count_prologue m targetFunction hookSize bytesToCopy =
     (if bytesToCopy < hookSize then
        (case GetInstructionLength m (targetFunction + of_nat bytesToCopy) of
           None \<Rightarrow> None
         | Some instructionLength \<Rightarrow>
             if instructionLength = 0 then Some None
             else count_prologue m targetFunction hookSize (bytesToCopy + instructionLength))
      else Some (Some bytesToCopy))"
  by pat_completeness auto
termination
  by (relation "measure (\<lambda>(m, t, hookSize, bytesToCopy). hookSize - bytesToCopy)") auto

declare count_prologue.simps [simp del]

text \<open>
  \<^verbatim>\<open>InstallHook\<close> returns its result, what it stores through \<^verbatim>\<open>originalFunction\<close> (when the
  caller passes a pointer) and the process state it leaves; \<open>None\<close> when it does not
  return.
\<close>

definition InstallHook ::
  "'os host \<Rightarrow> 'os process \<Rightarrow> uintptr_t \<Rightarrow> uintptr_t \<Rightarrow> HookType \<Rightarrow>
   (bool \<times> uintptr_t option \<times> 'os process) option" where
  "InstallHook h s targetFunction detourFunction type0 =
     (if IsHooked s targetFunction then Some (False, None, s)
      else
        (let ty = (if type0 = AUTO then (if is64Bit then JMP_ABSOLUTE else JMP_RELATIVE)
                   else type0);
             hookSize = CalculateHookSize ty
         in case count_prologue (memory s) targetFunction hookSize 0 of
              None \<Rightarrow> None
            | Some None \<Rightarrow> Some (False, None, s)
            | Some (Some bytesToCopy) \<Rightarrow>
                (case CreateTrampoline h (os s) targetFunction bytesToCopy of
                   (os1, trampolineAddr) \<Rightarrow>
                     if trampolineAddr = 0 then Some (False, None, s\<lparr>os := os1\<rparr>)
                     else
                       (let originalBytes' = read_bytes (memory s) targetFunction bytesToCopy
                        in case BuildTrampoline (memory s) trampolineAddr originalBytes'
                                  bytesToCopy targetFunction trampolineAddr of
                             None \<Rightarrow> None
                           | Some m1 \<Rightarrow>
                               (case SetMemoryProtection h os1 targetFunction hookSize
                                       PAGE_EXECUTE_READWRITE of
                                  None \<Rightarrow>
                                    Some (False, None,
                                          s\<lparr>memory := m1, os := VirtualFree h os1 trampolineAddr\<rparr>)
                                | Some (os2, oldProtect) \<Rightarrow>
                                    (let (m2, success) =
                                           (case ty of
                                              JMP_RELATIVE \<Rightarrow>
                                                WriteJumpRelative m1 targetFunction detourFunction
                                            | JMP_ABSOLUTE \<Rightarrow>
                                                WriteJumpAbsolute m1 targetFunction detourFunction
                                            | PUSH_RET \<Rightarrow>
                                                WritePushRet m1 targetFunction detourFunction
                                            | AUTO \<Rightarrow> (m1, False));
                                         m3 = (if success \<and> hookSize < bytesToCopy
                                               then memset m2 (targetFunction + of_nat hookSize)
                                                      0x90 (bytesToCopy - hookSize)
                                               else m2);
                                         os3 = (case SetMemoryProtection h os2 targetFunction
                                                       hookSize oldProtect of
                                                  None \<Rightarrow> os2
                                                | Some (os', _) \<Rightarrow> os')
                                     in if success then
                                          Some (True, Some trampolineAddr,
                                                s\<lparr>memory := m3, os := os3,
                                                  trampolines := trampolines s @
                                                    [\<lparr>originalFunction = targetFunction,
                                                      trampolineAddress = trampolineAddr,
                                                      originalSize = bytesToCopy,
                                                      originalBytes = originalBytes',
                                                      isActive = True\<rparr>]\<rparr>)
                                        else
                                          Some (False, None,
                                                s\<lparr>memory := m3,
                                                  os := VirtualFree h os3 trampolineAddr\<rparr>)))))))"

text \<open>
  \<^verbatim>\<open>std::find_if\<close> over the registry, the erasure of the entry it found, and the
  assignment to a field of that entry.
\<close>

definition find_trampoline :: "Trampoline list \<Rightarrow> uintptr_t \<Rightarrow> Trampoline option" where
  "find_trampoline ts targetFunction = find (\<lambda>t. originalFunction t = targetFunction) ts"

fun erase_found :: "Trampoline list \<Rightarrow> uintptr_t \<Rightarrow> Trampoline list" where
  "erase_found [] targetFunction = []"
| "erase_found (t # ts) targetFunction =
     (if originalFunction t = targetFunction then ts else t # erase_found ts targetFunction)"

fun set_found_active :: "Trampoline list \<Rightarrow> uintptr_t \<Rightarrow> bool \<Rightarrow> Trampoline list" where
  "set_found_active [] targetFunction b = []"
| "set_found_active (t # ts) targetFunction b =
     (if originalFunction t = targetFunction then t\<lparr>isActive := b\<rparr> # ts
      else t # set_found_active ts targetFunction b)"

definition RemoveHook :: "'os host \<Rightarrow> 'os process \<Rightarrow> uintptr_t \<Rightarrow> bool \<times> 'os process" where
  "RemoveHook h s targetFunction =
     (case find_trampoline (trampolines s) targetFunction of
        None \<Rightarrow> (False, s)
      | Some it \<Rightarrow>
          (case SetMemoryProtection h (os s) targetFunction (originalSize it)
                  PAGE_EXECUTE_READWRITE of
             None \<Rightarrow> (False, s)
           | Some (os1, oldProtect) \<Rightarrow>
               (let m1 = memcpy (memory s) targetFunction (take (originalSize it) (originalBytes it));
                    os2 = (case SetMemoryProtection h os1 targetFunction (originalSize it)
                                  oldProtect of
                             None \<Rightarrow> os1
                           | Some (os', _) \<Rightarrow> os')
                in (True, s\<lparr>memory := m1,
                            os := VirtualFree h os2 (trampolineAddress it),
                            trampolines := erase_found (trampolines s) targetFunction\<rparr>))))"

definition EnableHook :: "'os process \<Rightarrow> uintptr_t \<Rightarrow> bool \<times> 'os process" where
  "EnableHook s targetFunction =
     (case find_trampoline (trampolines s) targetFunction of
        None \<Rightarrow> (False, s)
      | Some it \<Rightarrow>
          if isActive it then (False, s)
          else (True, s\<lparr>trampolines := set_found_active (trampolines s) targetFunction True\<rparr>))"

definition DisableHook :: "'os host \<Rightarrow> 'os process \<Rightarrow> uintptr_t \<Rightarrow> bool \<times> 'os process" where
  "DisableHook h s targetFunction =
     (case find_trampoline (trampolines s) targetFunction of
        None \<Rightarrow> (False, s)
      | Some it \<Rightarrow>
          if \<not> isActive it then (False, s)
          else
            (case SetMemoryProtection h (os s) targetFunction (originalSize it)
                    PAGE_EXECUTE_READWRITE of
               None \<Rightarrow> (False, s)
             | Some (os1, oldProtect) \<Rightarrow>
                 (let m1 = memcpy (memory s) targetFunction
                             (take (originalSize it) (originalBytes it));
                      os2 = (case SetMemoryProtection h os1 targetFunction (originalSize it)
                                    oldProtect of
                               None \<Rightarrow> os1
                             | Some (os', _) \<Rightarrow> os')
                  in (True, s\<lparr>memory := m1, os := os2,
                              trampolines := set_found_active (trampolines s) targetFunction
                                               False\<rparr>))))"

section \<open>Notions the claims are stated with\<close>

text \<open>
  For \<^verbatim>\<open>NextScan\<close>: the bytes the access layer reads now at a previous result, whether
  that read still succeeds (it returns bytes, as many as the recorded value has; an entry
  with an empty value never does), the result emitted for such an entry, and what
  identifies the previous entry an emitted result came from.
\<close>

definition reread :: "'os host \<Rightarrow> 'os process \<Rightarrow> ScanResult \<Rightarrow> fault + u8 list" where
  "reread h s p = SafeReadBytes h s (address p) (of_nat (length (value' p)))"

definition still_readable :: "'os host \<Rightarrow> 'os process \<Rightarrow> ScanResult \<Rightarrow> bool" where
  "still_readable h s p =
     (case reread h s p of
        Inl e \<Rightarrow> False
      | Inr bs \<Rightarrow> bs \<noteq> [] \<and> length bs = length (value' p))"

definition emitted :: "'os host \<Rightarrow> 'os process \<Rightarrow> ScanResult \<Rightarrow> ScanResult" where
  "emitted h s p =
     \<lparr>address = address p, value' = projr (reread h s p), type' = type' p,
      previousValue = value' p\<rparr>"

definition entry_of_previous :: "ScanResult \<Rightarrow> uintptr_t \<times> u8 list \<times> string" where
  "entry_of_previous p = (address p, value' p, type' p)"

definition entry_of_emitted :: "ScanResult \<Rightarrow> uintptr_t \<times> u8 list \<times> string" where
  "entry_of_emitted r = (address r, previousValue r, type' r)"

section \<open>A host and processes for the examples\<close>

text \<open>
  One committed region, \<^verbatim>\<open>[0x1000, 0x3000)\<close>, whose protection the state holds;
  \<^verbatim>\<open>VirtualProtect\<close> succeeds as long as \<open>vp_left\<close> is not used up; allocations land at
  \<^verbatim>\<open>0x20000\<close>; the state lists what was freed. Touching a byte outside the region is an
  access violation, and so is touching one of the bytes listed as \<open>faulty\<close> (a page that
  went away behind the engine's back). A copy that faults leaves memory as it was.
\<close>

record demo_os =
  prot :: DWORD
  vp_left :: nat
  freed :: "uintptr_t list"
  faulty :: "uintptr_t list"

definition demo_host :: "demo_os host" where
  "demo_host =
     \<lparr>VirtualQuery = (\<lambda>os0 a.
        if 0x1000 \<le> a \<and> a < 0x3000
        then Some \<lparr>BaseAddress = 0x1000, RegionSize = 0x2000, State = MEM_COMMIT,
                   Protect = prot os0\<rparr>
        else None),
      VirtualProtect = (\<lambda>os0 a n p.
        if 0 < vp_left os0 then Some (os0\<lparr>prot := p, vp_left := vp_left os0 - 1\<rparr>, prot os0)
        else None),
      VirtualAlloc = (\<lambda>os0 n. (os0, 0x20000)),
      VirtualFree = (\<lambda>os0 a. os0\<lparr>freed := a # freed os0\<rparr>),
      access_violation = (\<lambda>os0 k a. a < 0x1000 \<or> 0x3000 \<le> a \<or> a \<in> set (faulty os0)),
      faulted_copy = (\<lambda>os0 m dst bs. m)\<rparr>"

definition demo_process ::
  "(uintptr_t \<Rightarrow> u8) \<Rightarrow> DWORD \<Rightarrow> nat \<Rightarrow> uintptr_t list \<Rightarrow> demo_os process" where
  "demo_process m p n fs =
     \<lparr>memory = m, os = \<lparr>prot = p, vp_left = n, freed = [], faulty = fs\<rparr>, trampolines = []\<rparr>"

text \<open>Memory that holds \<open>bs\<close> at \<open>a\<close> and \<^verbatim>\<open>nop\<close> (\<^verbatim>\<open>0x90\<close>) everywhere else.\<close>

definition code_at :: "uintptr_t \<Rightarrow> u8 list \<Rightarrow> (uintptr_t \<Rightarrow> u8)" where
  "code_at a bs = memcpy (\<lambda>_. 0x90) a bs"

definition demo_region :: MemoryRegion where
  "demo_region =
     \<lparr>baseAddress = 0x1000, size' = 0x2000, protection = PAGE_READWRITE,
      readable = True, writable = True, executable = False\<rparr>"

definition demo_options :: "uintptr_t \<Rightarrow> uintptr_t \<Rightarrow> ScanOptions" where
  "demo_options start end' =
     \<lparr>startAddress = start, endAddress = end', alignment = 1, filterWritable = Yes,
      filterExecutable = Any, filterCopyOnWrite = Any, previousResults = None\<rparr>"

text \<open>
  Three results of a first scan for the \<^verbatim>\<open>int32\<close> 7, in a memory where the first has
  become 9 since, the second still is 7 and the third lies outside the region.
\<close>

definition demo_scanned_memory :: "uintptr_t \<Rightarrow> u8" where
  "demo_scanned_memory = memcpy (memcpy (\<lambda>_. 0) 0x1000 [9, 0, 0, 0]) 0x1008 [7, 0, 0, 0]"

definition demo_previous :: "ScanResult list" where
  "demo_previous =
     [\<lparr>address = 0x1000, value' = [7, 0, 0, 0], type' = ''int32'', previousValue = []\<rparr>,
      \<lparr>address = 0x1008, value' = [7, 0, 0, 0], type' = ''int32'', previousValue = []\<rparr>,
      \<lparr>address = 0x5000, value' = [7, 0, 0, 0], type' = ''int32'', previousValue = []\<rparr>]"

text \<open>
  A memory with two pointers: the word at \<^verbatim>\<open>0x1000\<close> holds \<^verbatim>\<open>0x1010\<close>, the word at
  \<^verbatim>\<open>0x1018\<close> holds \<^verbatim>\<open>0x2000\<close>.
\<close>

definition demo_pointers :: "uintptr_t \<Rightarrow> u8" where
  "demo_pointers =
     memcpy (memcpy (\<lambda>_. 0) 0x1000 [0x10, 0x10, 0, 0, 0, 0, 0, 0])
       0x1018 [0x00, 0x20, 0, 0, 0, 0, 0, 0]"

text \<open>
  The target of scenario 5 of the specification: a function at \<^verbatim>\<open>0x1000\<close> whose prologue is
  \<^verbatim>\<open>55 48 89 E5 48 83 EC 20\<close>, in a region that is executable and readable, with \<open>k\<close>
  protection changes to come.
\<close>

definition demo_prologue :: "u8 list" where
  "demo_prologue = [0x55, 0x48, 0x89, 0xE5, 0x48, 0x83, 0xEC, 0x20]"

definition demo_target :: "nat \<Rightarrow> demo_os process" where
  "demo_target k = demo_process (code_at 0x1000 demo_prologue) PAGE_EXECUTE_READ k []"

section \<open>Properties of the length disassembler\<close>

lemma GetOpcodeSize_pos: "0 < GetOpcodeSize data hasRex"
  by (simp add: GetOpcodeSize_def opcode_and_size_def Let_def)

lemma GetLength_not_prefix:
  "\<not> IsPrefix (data 0) \<Longrightarrow> GetLength data = Some (GetOpcodeSize data False)"
  by (simp add: GetLength_def skip_prefixes.simps)

lemma GetLength_never_zero: "GetLength data \<noteq> Some 0"
  using GetOpcodeSize_pos
  by (auto simp: GetLength_def split: option.splits)

lemma byte_range_cases:
  fixes b :: u8
  assumes "lo \<le> b" "b \<le> hi"
  shows "b \<in> of_nat ` {unat lo..unat hi}"
proof -
  have "unat b \<in> {unat lo..unat hi}"
    using assms by (simp add: word_le_nat_alt)
  then have "of_nat (unat b) \<in> (of_nat ` {unat lo..unat hi} :: u8 set)"
    by (rule imageI)
  then show ?thesis by simp
qed

lemmas length_simps =
  GetLength_not_prefix GetOpcodeSize_def opcode_and_size_def IsPrefix_def hasModRM_def

text \<open>What the length disassembler returns on the opcodes that carry an immediate.\<close>

lemma GetLength_rel32: "data 0 = 0xE8 \<or> data 0 = 0xE9 \<Longrightarrow> GetLength data = Some 5"
  by (elim disjE) (simp_all add: length_simps)

lemma GetLength_rel8: "data 0 = 0xEB \<Longrightarrow> GetLength data = Some 2"
  by (simp add: length_simps)

lemma GetLength_push_ret_imm:
  "data 0 = 0x6A \<or> data 0 = 0x68 \<or> data 0 = 0xC2 \<Longrightarrow> GetLength data = Some 1"
  by (elim disjE) (simp_all add: length_simps)

lemma GetLength_mov_imm:
  fixes data :: "nat \<Rightarrow> u8"
  assumes "0xB0 \<le> data 0" "data 0 \<le> 0xBF"
  shows "GetLength data = Some 1"
proof -
  have "data 0 \<in> of_nat ` {unat (0xB0::u8)..unat (0xBF::u8)}"
    using assms by (rule byte_range_cases)
  then have "data 0 \<in> {0xB0, 0xB1, 0xB2, 0xB3, 0xB4, 0xB5, 0xB6, 0xB7,
                        0xB8, 0xB9, 0xBA, 0xBB, 0xBC, 0xBD, 0xBE, 0xBF}"
    by (simp add: atLeastAtMost_upt upt_rec[of "numeral _"] del: upt.simps)
  then show ?thesis
    by (elim insertE emptyE) (simp_all add: length_simps)
qed

text \<open>
  Claim C3 (the code departs from it). The claim: on every covered opcode that carries
  an immediate, \<^verbatim>\<open>GetLength\<close> returns the assembled size, 5 for \<^verbatim>\<open>68 imm32\<close>, 2 for
  \<^verbatim>\<open>6A imm8\<close>, 3 for \<^verbatim>\<open>C2 imm16\<close>. The code sizes \<^verbatim>\<open>E8\<close>, \<^verbatim>\<open>E9\<close> and \<^verbatim>\<open>EB\<close> only
  (\<open>GetLength_rel32\<close>, \<open>GetLength_rel8\<close>); \<^verbatim>\<open>68\<close>, \<^verbatim>\<open>6A\<close>, \<^verbatim>\<open>B0..BF\<close> and \<^verbatim>\<open>C2\<close> fall
  through to the bare opcode size. Evaluated here: \<^verbatim>\<open>push 0x12345678\<close>,
  \<^verbatim>\<open>push 0x10\<close>, \<^verbatim>\<open>mov eax, 1\<close>, \<^verbatim>\<open>mov al, 1\<close> and \<^verbatim>\<open>ret 8\<close>, whatever follows them in
  memory, all get length 1.
\<close>

theorem GetLength_immediates_undersized:
  "GetLength (followed_by [0x68, 0x78, 0x56, 0x34, 0x12] rest) = Some 1 \<and>
   GetLength (followed_by [0x6A, 0x10] rest) = Some 1 \<and>
   GetLength (followed_by [0xB8, 0x01, 0x00, 0x00, 0x00] rest) = Some 1 \<and>
   GetLength (followed_by [0xB0, 0x01] rest) = Some 1 \<and>
   GetLength (followed_by [0xC2, 0x08, 0x00] rest) = Some 1"
  by (simp add: length_simps followed_by_def)

text \<open>
  The prologue count of \<^verbatim>\<open>InstallHook\<close>: its test \<^verbatim>\<open>instructionLength == 0\<close> would leave
  the install before anything is allocated or written, but no prologue makes it fire.
\<close>

lemma InstallHook_zero_length_guard:
  assumes "\<not> IsHooked s T"
    and "count_prologue (memory s) T
           (CalculateHookSize (if ty = AUTO then (if is64Bit then JMP_ABSOLUTE else JMP_RELATIVE)
                               else ty)) 0 = Some None"
  shows "InstallHook h s T D ty = Some (False, None, s)"
  using assms by (simp add: InstallHook_def Let_def)

lemma count_prologue_never_zero_length: "count_prologue m T hookSize b \<noteq> Some None"
proof (induction m T hookSize b rule: count_prologue.induct)
  case (1 m T hookSize b)
  show ?case
  proof (cases "b < hookSize")
    case False
    then show ?thesis by (subst count_prologue.simps) simp
  next
    case True
    show ?thesis
    proof (cases "GetInstructionLength m (T + of_nat b)")
      case None
      with True show ?thesis by (subst count_prologue.simps) simp
    next
      case (Some len)
      then have "len \<noteq> 0"
        using GetLength_never_zero[of "view m (T + of_nat b)"]
        by (auto simp: GetInstructionLength_def)
      with True Some "1.IH"[OF True Some] show ?thesis
        by (subst count_prologue.simps) simp
    qed
  qed
qed

text \<open>
  Claim C4 (the code departs from it). The claim: when the first byte behind the
  prefixes resolves in no covered table, \<^verbatim>\<open>GetLength\<close> returns 0, and
  \<^verbatim>\<open>InstallHook\<close> fails on it. \<^verbatim>\<open>GetOpcodeSize\<close> starts its count at 1 and only adds to
  it, so \<^verbatim>\<open>GetLength\<close> never returns 0: an opcode it does not know, such as
  \<^verbatim>\<open>C8 10 00 00\<close> (\<^verbatim>\<open>enter 16, 0\<close>), gets length 1, and the test
  \<^verbatim>\<open>instructionLength == 0\<close> of \<^verbatim>\<open>InstallHook\<close> never fires: the prologue count never
  ends in the zero-length outcome \<open>Some None\<close>.
\<close>

theorem GetLength_unknown_opcode_not_zero:
  "GetLength (followed_by [0xC8, 0x10, 0x00, 0x00] rest) = Some 1 \<and>
   (\<forall>data. GetLength data \<noteq> Some 0) \<and>
   (\<forall>m T hookSize b. count_prologue m T hookSize b \<noteq> Some None)"
  by (simp add: length_simps followed_by_def GetLength_never_zero
      count_prologue_never_zero_length)

section \<open>Properties of the safe memory access layer\<close>

lemmas demo_simps =
  demo_host_def demo_process_def MEM_COMMIT_def readable_mask_def writable_mask_def
  PAGE_READONLY_def PAGE_READWRITE_def PAGE_EXECUTE_READ_def PAGE_EXECUTE_READWRITE_def
  PAGE_WRITECOPY_def PAGE_EXECUTE_WRITECOPY_def

lemma SafeMemcpy_length: "SafeMemcpy h s a n = Some bs \<Longrightarrow> length bs = n"
  by (auto simp: SafeMemcpy_def split: if_splits)

text \<open>
  What does hold of \<^verbatim>\<open>SafeReadBytes\<close>: a result is empty or has the length asked for and
  holds the bytes of memory; an uncommitted or unreadable region and a fault during the
  copy give the empty result; it raises only above the vector's maximal size.
\<close>

lemma SafeReadBytes_empty_or_full:
  "SafeReadBytes h s a n = Inr bs \<Longrightarrow>
   bs = [] \<or> (length bs = unat n \<and> bs = read_bytes (memory s) a (unat n))"
  by (auto simp: SafeReadBytes_def SafeMemcpy_def read_bytes_def split: if_splits)

lemma SafeReadBytes_fail_closed:
  assumes "VirtualQuery h (os s) a = None \<or>
           (\<exists>mbi. VirtualQuery h (os s) a = Some mbi \<and>
                  (State mbi \<noteq> MEM_COMMIT \<or> Protect mbi AND readable_mask = 0))"
  shows "SafeReadBytes h s a n = Inr []"
  using assms by (auto simp: SafeReadBytes_def IsAddressReadable_def IsAddressValid_def)

lemma SafeReadBytes_fault:
  assumes "unat n \<le> vector_max_size" "i < unat n"
    and "access_violation h (os s) Read (a + of_nat i)"
  shows "SafeReadBytes h s a n = Inr []"
proof -
  have "list_ex (\<lambda>i. access_violation h (os s) Read (a + of_nat i)) [0..<unat n]"
    using assms(2,3) by (auto simp: list_ex_iff)
  then have "SafeMemcpy h s a (unat n) = None"
    by (simp add: SafeMemcpy_def)
  with assms(1) show ?thesis
    by (simp add: SafeReadBytes_def)
qed

lemma SafeReadBytes_raises:
  "SafeReadBytes h s a n = Inl e \<Longrightarrow> vector_max_size < unat n \<and> IsAddressReadable h s a n"
  by (auto simp: SafeReadBytes_def split: if_splits option.splits)

text \<open>
  Where nothing wraps, a range that the region does not cover gives the empty result.
\<close>

lemma SafeReadBytes_not_covered:
  assumes q: "VirtualQuery h (os s) a = Some mbi"
    and n: "n \<noteq> 0" and nowrap: "unat a + unat n \<le> 2 ^ 64"
    and r: "RegionSize mbi \<noteq> 0"
    and rnowrap: "unat (BaseAddress mbi) + unat (RegionSize mbi) \<le> 2 ^ 64"
    and out: "unat (BaseAddress mbi) + unat (RegionSize mbi) < unat a + unat n"
  shows "SafeReadBytes h s a n = Inr []"
proof -
  have n1: "unat (n - 1) = unat n - 1"
    using n by (simp add: unat_minus_one)
  have r1: "unat (RegionSize mbi - 1) = unat (RegionSize mbi) - 1"
    using r by (simp add: unat_minus_one)
  have npos: "0 < unat n" using n by (simp add: unat_gt_0)
  have rpos: "0 < unat (RegionSize mbi)" using r by (simp add: unat_gt_0)
  have e: "unat (a + (n - 1)) = unat a + (unat n - 1)"
    using nowrap npos n1 by (subst unat_add_lem[THEN iffD1]) auto
  have re: "unat (BaseAddress mbi + (RegionSize mbi - 1)) =
            unat (BaseAddress mbi) + (unat (RegionSize mbi) - 1)"
    using rnowrap rpos r1 by (subst unat_add_lem[THEN iffD1]) auto
  have "\<not> a + n - 1 \<le> BaseAddress mbi + RegionSize mbi - 1"
    using e re out npos rpos
    by (simp add: word_le_nat_alt add_diff_eq[symmetric] del: add_diff_eq)
  then have "\<not> IsAddressValid h s a n"
    using q by (simp add: IsAddressValid_def Let_def)
  then show ?thesis
    by (simp add: SafeReadBytes_def IsAddressReadable_def)
qed

text \<open>
  Claim C1 (the code departs from it). The claim: for every address and length
  \<^verbatim>\<open>SafeReadBytes\<close> returns the bytes asked for or the empty result, the empty result
  whenever the region that holds the address does not cover the range. The range test of
  \<^verbatim>\<open>IsAddressValid\<close> computes \<^verbatim>\<open>address + size - 1\<close> in \<^verbatim>\<open>uintptr_t\<close>, where it wraps:
  at address \<^verbatim>\<open>0x1000\<close> of the committed, readable region \<^verbatim>\<open>[0x1000, 0x3000)\<close> and
  length \<^verbatim>\<open>2^64 - 0xFFF\<close> the end address is 0, the test passes although the region does
  not cover the range, and \<^verbatim>\<open>buffer.resize(size)\<close> raises \<^verbatim>\<open>std::length_error\<close>: the
  function returns neither the bytes nor the empty result.
\<close>

theorem SafeReadBytes_range_wraps:
  "VirtualQuery demo_host (os (demo_process (\<lambda>_. 0) PAGE_READWRITE 0 [])) 0x1000 =
     Some \<lparr>BaseAddress = 0x1000, RegionSize = 0x2000, State = MEM_COMMIT,
           Protect = PAGE_READWRITE\<rparr> \<and>
   IsAddressValid demo_host (demo_process (\<lambda>_. 0) PAGE_READWRITE 0 []) 0x1000
     0xFFFFFFFFFFFFF001 \<and>
   SafeReadBytes demo_host (demo_process (\<lambda>_. 0) PAGE_READWRITE 0 []) 0x1000
     0xFFFFFFFFFFFFF001 = Inl length_error"
  by (simp add: SafeReadBytes_def IsAddressReadable_def IsAddressValid_def demo_simps
      vector_max_size_def)

lemma memcpy_guarded_ok:
  "(\<And>i. i < length bs \<Longrightarrow> \<not> access_violation h os0 Write (a + of_nat i)) \<Longrightarrow>
   memcpy_guarded h os0 m a bs = (memcpy m a bs, True)"
  by (simp add: memcpy_guarded_def list_ex_iff)

lemma memcpy_guarded_fault:
  "i < length bs \<Longrightarrow> access_violation h os0 Write (a + of_nat i) \<Longrightarrow>
   snd (memcpy_guarded h os0 m a bs) = False"
  by (auto simp: memcpy_guarded_def list_ex_iff)

lemma SafeWriteBytes_gate:
  "bs = [] \<or> \<not> IsAddressValid h s a (of_nat (length bs)) \<Longrightarrow>
   SafeWriteBytes h s a bs = (False, s)"
  by (auto simp: SafeWriteBytes_def)

lemma SafeWriteBytes_toggle_fails:
  "VirtualProtect h (os s) a (of_nat (length bs)) PAGE_EXECUTE_READWRITE = None \<Longrightarrow>
   SafeWriteBytes h s a bs = (False, s)"
  by (simp add: SafeWriteBytes_def SafeWriteMemory_def)

lemma SafeWriteBytes_written:
  assumes "bs \<noteq> []" "IsAddressValid h s a (of_nat (length bs))"
    and "VirtualProtect h (os s) a (of_nat (length bs)) PAGE_EXECUTE_READWRITE = Some (os1, old)"
    and "\<forall>i<length bs. \<not> access_violation h os1 Write (a + of_nat i)"
  shows "SafeWriteBytes h s a bs =
        (True, s\<lparr>memory := memcpy (memory s) a bs,
                 os := (case VirtualProtect h os1 a (of_nat (length bs)) old of
                          None \<Rightarrow> os1 | Some (os2, x) \<Rightarrow> os2)\<rparr>)"
proof -
  have "memcpy_guarded h os1 (memory s) a bs = (memcpy (memory s) a bs, True)"
    using assms(4) by (intro memcpy_guarded_ok) simp
  with assms show ?thesis
    by (simp add: SafeWriteBytes_def SafeWriteMemory_def)
qed

lemma SafeWriteBytes_copy_faults:
  assumes "bs \<noteq> []" "IsAddressValid h s a (of_nat (length bs))"
    and "VirtualProtect h (os s) a (of_nat (length bs)) PAGE_EXECUTE_READWRITE = Some (os1, old)"
    and "\<exists>i<length bs. access_violation h os1 Write (a + of_nat i)"
  shows "fst (SafeWriteBytes h s a bs) = False \<and> os (snd (SafeWriteBytes h s a bs)) = os1"
proof -
  from assms(4) obtain i where "i < length bs" "access_violation h os1 Write (a + of_nat i)"
    by blast
  then have "snd (memcpy_guarded h os1 (memory s) a bs) = False"
    by (rule memcpy_guarded_fault)
  then obtain m where "memcpy_guarded h os1 (memory s) a bs = (m, False)"
    by (cases "memcpy_guarded h os1 (memory s) a bs") auto
  with assms show ?thesis
    by (simp add: SafeWriteBytes_def SafeWriteMemory_def)
qed

text \<open>
  Claim C2, as stated: a write sets read/write/execute when the target is not writable,
  copies, restores the previous protection; a failure of either protection change, the
  first or the restore, makes the write return false; a false return leaves the original
  protection intact. Counterexample: a read-only region and a system that grants one
  protection change and refuses the next. The first change succeeds, the byte is written,
  the restore fails, and \<^verbatim>\<open>SafeWriteBytes\<close> returns true with read/write/execute left
  on the region.
\<close>

theorem SafeWriteBytes_restore_failure_ignored:
  "VirtualProtect demo_host (os (demo_process (\<lambda>_. 0x90) PAGE_READONLY 1 [])) 0x1000 1
     PAGE_EXECUTE_READWRITE =
     Some (\<lparr>prot = PAGE_EXECUTE_READWRITE, vp_left = 0, freed = [], faulty = []\<rparr>,
           PAGE_READONLY) \<and>
   VirtualProtect demo_host
     \<lparr>prot = PAGE_EXECUTE_READWRITE, vp_left = 0, freed = [], faulty = []\<rparr> 0x1000 1
     PAGE_READONLY = None \<and>
   SafeWriteBytes demo_host (demo_process (\<lambda>_. 0x90) PAGE_READONLY 1 []) 0x1000 [0xCC] =
     (True, \<lparr>memory = (\<lambda>_. 0x90)(0x1000 := 0xCC),
             os = \<lparr>prot = PAGE_EXECUTE_READWRITE, vp_left = 0, freed = [], faulty = []\<rparr>,
             trampolines = []\<rparr>)"
  by (simp add: SafeWriteBytes_def SafeWriteMemory_def memcpy_guarded_def IsAddressValid_def
      demo_simps)

text \<open>
  Claim C2, amended to what the code does. \<^verbatim>\<open>SafeWriteBytes\<close> rejects an empty payload
  and an invalid range with false and no effect. Otherwise it asks for
  read/write/execute on the target, whatever the current protection. When that change
  fails it returns false and leaves memory and protection as they were. When it succeeds
  and the copy does not fault, the bytes are written, the previous protection is asked
  back and the write returns true, whether the restore succeeds or not: after a failed
  restore the system state is the one the first change left. When the copy faults the
  write returns false and the system state is the one the first change left.
\<close>

theorem SafeWriteBytes_protection:
  "(bs = [] \<or> \<not> IsAddressValid h s a (of_nat (length bs)) \<longrightarrow>
      SafeWriteBytes h s a bs = (False, s)) \<and>
   (VirtualProtect h (os s) a (of_nat (length bs)) PAGE_EXECUTE_READWRITE = None \<longrightarrow>
      SafeWriteBytes h s a bs = (False, s)) \<and>
   (bs \<noteq> [] \<and> IsAddressValid h s a (of_nat (length bs)) \<and>
    VirtualProtect h (os s) a (of_nat (length bs)) PAGE_EXECUTE_READWRITE = Some (os1, old) \<and>
    (\<forall>i<length bs. \<not> access_violation h os1 Write (a + of_nat i)) \<longrightarrow>
      SafeWriteBytes h s a bs =
        (True, s\<lparr>memory := memcpy (memory s) a bs,
                 os := (case VirtualProtect h os1 a (of_nat (length bs)) old of
                          None \<Rightarrow> os1 | Some (os2, x) \<Rightarrow> os2)\<rparr>)) \<and>
   (bs \<noteq> [] \<and> IsAddressValid h s a (of_nat (length bs)) \<and>
    VirtualProtect h (os s) a (of_nat (length bs)) PAGE_EXECUTE_READWRITE = Some (os1, old) \<and>
    (\<exists>i<length bs. access_violation h os1 Write (a + of_nat i)) \<longrightarrow>
      fst (SafeWriteBytes h s a bs) = False \<and> os (snd (SafeWriteBytes h s a bs)) = os1)"
  using SafeWriteBytes_gate[of bs h s a] SafeWriteBytes_toggle_fails[of h s a bs]
    SafeWriteBytes_written[of bs h s a os1 old] SafeWriteBytes_copy_faults[of bs h s a os1 old]
  by blast

text \<open>
  The four cases at concrete inputs: an empty payload; a system that refuses the first
  change; a read-only region whose protection is changed, written through and restored;
  and a write whose second byte faults.
\<close>

theorem SafeWriteBytes_protection_witness:
  "SafeWriteBytes demo_host (demo_process (\<lambda>_. 0x90) PAGE_READONLY 2 []) 0x1000 [] =
     (False, demo_process (\<lambda>_. 0x90) PAGE_READONLY 2 []) \<and>
   VirtualProtect demo_host (os (demo_process (\<lambda>_. 0x90) PAGE_READONLY 0 [])) 0x1000 1
     PAGE_EXECUTE_READWRITE = None \<and>
   SafeWriteBytes demo_host (demo_process (\<lambda>_. 0x90) PAGE_READONLY 0 []) 0x1000 [0xCC] =
     (False, demo_process (\<lambda>_. 0x90) PAGE_READONLY 0 []) \<and>
   IsAddressValid demo_host (demo_process (\<lambda>_. 0x90) PAGE_READONLY 2 []) 0x1000 1 \<and>
   SafeWriteBytes demo_host (demo_process (\<lambda>_. 0x90) PAGE_READONLY 2 []) 0x1000 [0xCC] =
     (True, \<lparr>memory = (\<lambda>_. 0x90)(0x1000 := 0xCC),
             os = \<lparr>prot = PAGE_READONLY, vp_left = 0, freed = [], faulty = []\<rparr>,
             trampolines = []\<rparr>) \<and>
   IsAddressValid demo_host (demo_process (\<lambda>_. 0x90) PAGE_READONLY 2 [0x1001]) 0x1000 2 \<and>
   access_violation demo_host
     \<lparr>prot = PAGE_EXECUTE_READWRITE, vp_left = 1, freed = [], faulty = [0x1001]\<rparr> Write 0x1001 \<and>
   fst (SafeWriteBytes demo_host (demo_process (\<lambda>_. 0x90) PAGE_READONLY 2 [0x1001]) 0x1000
          [0xCC, 0xCC]) = False \<and>
   os (snd (SafeWriteBytes demo_host (demo_process (\<lambda>_. 0x90) PAGE_READONLY 2 [0x1001]) 0x1000
          [0xCC, 0xCC])) =
     \<lparr>prot = PAGE_EXECUTE_READWRITE, vp_left = 1, freed = [], faulty = [0x1001]\<rparr>"
proof -
  let ?s2 = "demo_process (\<lambda>_. 0x90) PAGE_READONLY 2 []"
  let ?s0 = "demo_process (\<lambda>_. 0x90) PAGE_READONLY 0 []"
  let ?sf = "demo_process (\<lambda>_. 0x90) PAGE_READONLY 2 [0x1001]"
  let ?os1 = "\<lparr>prot = PAGE_EXECUTE_READWRITE, vp_left = 1, freed = [], faulty = []\<rparr>"
  let ?osf = "\<lparr>prot = PAGE_EXECUTE_READWRITE, vp_left = 1, freed = [], faulty = [0x1001]\<rparr>"
  have gate: "SafeWriteBytes demo_host ?s2 0x1000 [] = (False, ?s2)"
    using SafeWriteBytes_protection[where bs = "[]" and h = demo_host and a = "0x1000" and s = ?s2]
    by simp
  have refused: "VirtualProtect demo_host (os ?s0) 0x1000 1 PAGE_EXECUTE_READWRITE = None"
    by (simp add: demo_simps)
  have toggle: "SafeWriteBytes demo_host ?s0 0x1000 [0xCC] = (False, ?s0)"
    using SafeWriteBytes_protection[where bs = "[0xCC]" and h = demo_host and a = "0x1000"
        and s = ?s0] refused
    by simp
  have valid: "IsAddressValid demo_host ?s2 0x1000 1"
    by (simp add: IsAddressValid_def demo_simps)
  have granted: "VirtualProtect demo_host (os ?s2) 0x1000 1 PAGE_EXECUTE_READWRITE =
                   Some (?os1, PAGE_READONLY)"
    by (simp add: demo_simps)
  have quiet: "\<forall>i<length [0xCC::u8]. \<not> access_violation demo_host ?os1 Write (0x1000 + of_nat i)"
    by (simp add: demo_simps)
  have written: "SafeWriteBytes demo_host ?s2 0x1000 [0xCC] =
     (True, \<lparr>memory = (\<lambda>_. 0x90)(0x1000 := 0xCC),
             os = \<lparr>prot = PAGE_READONLY, vp_left = 0, freed = [], faulty = []\<rparr>,
             trampolines = []\<rparr>)"
    using SafeWriteBytes_protection[where bs = "[0xCC]" and h = demo_host and a = "0x1000"
        and s = ?s2 and ?os1.0 = ?os1 and old = PAGE_READONLY] valid granted quiet
    by (simp add: demo_simps)
  have validf: "IsAddressValid demo_host ?sf 0x1000 2"
    by (simp add: IsAddressValid_def demo_simps)
  have grantedf: "VirtualProtect demo_host (os ?sf) 0x1000 2 PAGE_EXECUTE_READWRITE =
                   Some (?osf, PAGE_READONLY)"
    by (simp add: demo_simps)
  have fault: "access_violation demo_host ?osf Write 0x1001"
    by (simp add: demo_simps)
  then have "\<exists>i<length [0xCC::u8, 0xCC]. access_violation demo_host ?osf Write (0x1000 + of_nat i)"
    by (intro exI[of _ 1]) simp
  then have faulted: "fst (SafeWriteBytes demo_host ?sf 0x1000 [0xCC, 0xCC]) = False \<and>
      os (snd (SafeWriteBytes demo_host ?sf 0x1000 [0xCC, 0xCC])) = ?osf"
    using SafeWriteBytes_protection[where bs = "[0xCC, 0xCC]" and h = demo_host and a = "0x1000"
        and s = ?sf and ?os1.0 = ?osf and old = PAGE_READONLY] validf grantedf
    by simp
  show ?thesis
    using gate refused toggle valid written validf fault faulted by simp
qed

section \<open>Properties of the pointer chain\<close>

text \<open>
  The word read of the access layer, in terms of memory: \<^verbatim>\<open>SafeRead<uintptr_t>\<close> gives the
  little-endian word of the eight bytes at the address when the range is readable and
  the copy does not fault, and nothing otherwise.
\<close>

lemma le_decode_8:
  "le_decode [b0, b1, b2, b3, b4, b5, b6, b7] =
     ucast b0 OR push_bit 8 (ucast b1) OR push_bit 16 (ucast b2) OR push_bit 24 (ucast b3) OR
     push_bit 32 (ucast b4) OR push_bit 40 (ucast b5) OR push_bit 48 (ucast b6) OR
     push_bit 56 (ucast b7)"
  by (simp add: push_bit_or)

lemma SafeRead_uintptr_word:
  "SafeRead_uintptr h s p = (if word_readable h s p then Some (word_at (memory s) p) else None)"
proof -
  have idx: "[0..<8] = [0, 1, 2, 3, 4, 5, 6, 7]"
    by (simp add: upt_rec[of _ "numeral _"] del: upt.simps)
  show ?thesis
    unfolding SafeRead_uintptr_def SafeMemcpy_def word_readable_def word_at_def idx
    by (simp add: le_decode_8)
qed

lemma FollowPointerChain_from_spec:
  "i \<le> length offsets \<Longrightarrow>
   FollowPointerChain_from h s offsets i p = pointer_chain_spec h s p (drop i offsets)"
proof (induction h s offsets i p rule: FollowPointerChain_from.induct)
  case (1 h s offsets i p)
  show ?case
  proof (cases "i < length offsets")
    case False
    with "1.prems" show ?thesis
      by (subst FollowPointerChain_from.simps) simp
  next
    case True
    then have d: "drop i offsets = offsets ! i # drop (Suc i) offsets"
      by (simp add: Cons_nth_drop_Suc)
    show ?thesis
    proof (cases "word_readable h s p")
      case False
      with True d show ?thesis
        by (subst FollowPointerChain_from.simps) (simp add: SafeRead_uintptr_word)
    next
      case readable: True
      define q where "q = word_at (memory s) p"
      have rd: "SafeRead_uintptr h s p = Some q"
        using readable by (simp add: SafeRead_uintptr_word q_def)
      show ?thesis
      proof (cases "i < length offsets - 1 \<and> \<not> IsAddressReadable h s (q + offsets ! i) 8")
        case stop: True
        then have "Suc i < length offsets" by (elim conjE) arith
        then have "drop (Suc i) offsets = offsets ! Suc i # drop (Suc (Suc i)) offsets"
          by (simp add: Cons_nth_drop_Suc)
        moreover from stop have "\<not> word_readable h s (q + offsets ! i)"
          by (simp add: word_readable_def)
        ultimately show ?thesis using True d rd readable stop
          by (subst FollowPointerChain_from.simps) (simp add: q_def)
      next
        case go: False
        have "FollowPointerChain_from h s offsets (i + 1) (q + offsets ! i) =
              pointer_chain_spec h s (q + offsets ! i) (drop (i + 1) offsets)"
          using "1.IH"[OF True rd refl go] True by simp
        then show ?thesis using True d rd readable go
          by (subst FollowPointerChain_from.simps) (auto simp: Let_def q_def)
      qed
    qed
  qed
qed

text \<open>
  What the readability test asks of the region, where no address computation wraps: the
  region that the system reports for the address is committed, has read permission and
  ends at or behind the end of the range.
\<close>

lemma IsAddressReadable_region:
  assumes q: "VirtualQuery h (os s) a = Some mbi"
    and a: "a \<noteq> 0" and n: "n \<noteq> 0" and nowrap: "unat a + unat n \<le> 2 ^ 64"
    and r: "RegionSize mbi \<noteq> 0"
    and rnowrap: "unat (BaseAddress mbi) + unat (RegionSize mbi) \<le> 2 ^ 64"
  shows "IsAddressReadable h s a n \<longleftrightarrow>
         State mbi = MEM_COMMIT \<and> Protect mbi AND readable_mask \<noteq> 0 \<and>
         unat a + unat n \<le> unat (BaseAddress mbi) + unat (RegionSize mbi)"
proof -
  have n1: "unat (n - 1) = unat n - 1"
    using n by (simp add: unat_minus_one)
  have r1: "unat (RegionSize mbi - 1) = unat (RegionSize mbi) - 1"
    using r by (simp add: unat_minus_one)
  have npos: "0 < unat n" using n by (simp add: unat_gt_0)
  have rpos: "0 < unat (RegionSize mbi)" using r by (simp add: unat_gt_0)
  have e: "unat (a + (n - 1)) = unat a + (unat n - 1)"
    using nowrap npos n1 by (subst unat_add_lem[THEN iffD1]) auto
  have re: "unat (BaseAddress mbi + (RegionSize mbi - 1)) =
            unat (BaseAddress mbi) + (unat (RegionSize mbi) - 1)"
    using rnowrap rpos r1 by (subst unat_add_lem[THEN iffD1]) auto
  have "a + n - 1 \<le> BaseAddress mbi + RegionSize mbi - 1 \<longleftrightarrow>
        unat a + unat n \<le> unat (BaseAddress mbi) + unat (RegionSize mbi)"
    using e re npos rpos
    by (auto simp add: word_le_nat_alt add_diff_eq[symmetric] simp del: add_diff_eq)
  then show ?thesis
    using q a by (auto simp: IsAddressReadable_def IsAddressValid_def Let_def)
qed

text \<open>
  Claim C8. \<^verbatim>\<open>FollowPointerChain\<close> computes what the specification describes: from the
  base \<open>p\<close>, for each offset in order, it requires \<open>[p, p + 8)\<close> readable, reads the word
  that memory holds at \<open>p\<close> and adds the offset to it; it returns the last address without
  reading there, and fails as soon as an address on the way is not readable. (The extra
  readability test the loop makes on every address but the last is the one the next read
  makes anyway.)
\<close>

theorem FollowPointerChain_refines_spec:
  "FollowPointerChain h s base offsets = pointer_chain_spec h s base offsets"
  by (simp add: FollowPointerChain_def FollowPointerChain_from_spec)

text \<open>
  Chains in a memory where the word at \<^verbatim>\<open>0x1000\<close> holds \<^verbatim>\<open>0x1010\<close> and the word at
  \<^verbatim>\<open>0x1018\<close> holds \<^verbatim>\<open>0x2000\<close>. Scenario 4 of the specification: the single offset 0 ends
  at \<^verbatim>\<open>0x1010\<close>, which is not read. Two offsets: \<^verbatim>\<open>0x1010 + 8\<close> is read and the chain
  ends at \<^verbatim>\<open>0x2000 + 4\<close>. An offset that leads out of the region, and a word one byte of
  which faults, are failures. No offset at all gives the base back.
\<close>

theorem FollowPointerChain_refines_spec_witness:
  "FollowPointerChain demo_host (demo_process demo_pointers PAGE_READWRITE 0 []) 0x1000 [0] =
     Some 0x1010 \<and>
   FollowPointerChain demo_host (demo_process demo_pointers PAGE_READWRITE 0 []) 0x1000 [8, 4] =
     Some 0x2004 \<and>
   FollowPointerChain demo_host (demo_process demo_pointers PAGE_READWRITE 0 []) 0x1000
     [0x4000, 0] = None \<and>
   FollowPointerChain demo_host (demo_process demo_pointers PAGE_READWRITE 0 [0x101F]) 0x1000
     [8, 4] = None \<and>
   FollowPointerChain demo_host (demo_process demo_pointers PAGE_READWRITE 0 []) 0x5000 [] =
     Some 0x5000"
proof -
  let ?s = "demo_process demo_pointers PAGE_READWRITE 0 []"
  let ?sf = "demo_process demo_pointers PAGE_READWRITE 0 [0x101F]"
  have idx: "[0..<8] = [0, 1, 2, 3, 4, 5, 6, 7]"
    by (simp add: upt_rec[of _ "numeral _"] del: upt.simps)
  note ev = word_readable_def word_at_def IsAddressReadable_def IsAddressValid_def idx
    demo_pointers_def demo_simps
  have one: "FollowPointerChain demo_host ?s 0x1000 [0] = Some 0x1010"
    using FollowPointerChain_refines_spec[of demo_host ?s "0x1000" "[0]"]
    by (simp add: ev)
  have two: "FollowPointerChain demo_host ?s 0x1000 [8, 4] = Some 0x2004"
    using FollowPointerChain_refines_spec[of demo_host ?s "0x1000" "[8, 4]"]
    by (simp add: ev)
  have out: "FollowPointerChain demo_host ?s 0x1000 [0x4000, 0] = None"
    using FollowPointerChain_refines_spec[of demo_host ?s "0x1000" "[0x4000, 0]"]
    by (simp add: ev)
  have fault: "FollowPointerChain demo_host ?sf 0x1000 [8, 4] = None"
    using FollowPointerChain_refines_spec[of demo_host ?sf "0x1000" "[8, 4]"]
    by (simp add: ev)
  have none: "FollowPointerChain demo_host ?s 0x5000 [] = Some 0x5000"
    using FollowPointerChain_refines_spec[of demo_host ?s "0x5000" "[]"]
    by simp
  show ?thesis
    using one two out fault none by simp
qed

section \<open>Properties of the scanner\<close>

lemmas scan_eval =
  SafeReadBytes_def IsAddressReadable_def IsAddressValid_def SafeMemcpy_def demo_simps
  vector_max_size_def memcmp_eq_def IsRegionScannable_def checkState_def demo_region_def
  demo_options_def code_at_def

lemma SafeReadBytes_vector_size:
  "length v \<le> vector_max_size \<Longrightarrow> SafeReadBytes h s a (of_nat (length v)) \<noteq> Inl e"
proof -
  assume "length v \<le> vector_max_size"
  moreover have "unat (of_nat (length v) :: size_t) \<le> length v"
    by (simp add: unat_of_nat)
  ultimately have "\<not> vector_max_size < unat (of_nat (length v) :: size_t)"
    by linarith
  then show ?thesis
    by (auto simp: SafeReadBytes_def split: option.splits)
qed

lemma NextScan_loop_changed:
  assumes "\<forall>p\<in>set prev. length (value' p) \<le> vector_max_size"
  shows "NextScan_loop h s stv cf ''changed'' v prev acc =
         Inr (acc @ map (emitted h s)
                (filter (\<lambda>p. still_readable h s p \<and> projr (reread h s p) \<noteq> value' p) prev))"
  using assms
proof (induction prev arbitrary: acc)
  case Nil
  then show ?case by simp
next
  case (Cons p prev)
  from Cons.prems have sz: "length (value' p) \<le> vector_max_size"
    and rest: "\<forall>p\<in>set prev. length (value' p) \<le> vector_max_size" by simp_all
  obtain bs where bs: "reread h s p = Inr bs"
    using SafeReadBytes_vector_size[OF sz, of h s "address p"]
    by (cases "reread h s p") (auto simp: reread_def)
  show ?case
  proof (cases "bs = [] \<or> length bs \<noteq> length (value' p)")
    case True
    then have "\<not> still_readable h s p" using bs by (auto simp: still_readable_def)
    with True bs Cons.IH[OF rest] show ?thesis by (simp add: reread_def)
  next
    case False
    then have r: "still_readable h s p" using bs by (simp add: still_readable_def)
    have m: "NextScan_match stv cf ''changed'' v p bs = Inr (bs \<noteq> value' p)"
      using False by (auto simp: NextScan_match_def memcmp_eq_def)
    have e: "emitted h s p = \<lparr>address = address p, value' = bs, type' = type' p,
                               previousValue = value' p\<rparr>"
      by (simp add: emitted_def bs)
    show ?thesis
      using False bs r m e Cons.IH[OF rest] by (simp add: reread_def)
  qed
qed

lemma NextScan_loop_unchanged:
  assumes "\<forall>p\<in>set prev. length (value' p) \<le> vector_max_size"
  shows "NextScan_loop h s stv cf ''unchanged'' v prev acc =
         Inr (acc @ map (emitted h s)
                (filter (\<lambda>p. still_readable h s p \<and> projr (reread h s p) = value' p) prev))"
  using assms
proof (induction prev arbitrary: acc)
  case Nil
  then show ?case by simp
next
  case (Cons p prev)
  from Cons.prems have sz: "length (value' p) \<le> vector_max_size"
    and rest: "\<forall>p\<in>set prev. length (value' p) \<le> vector_max_size" by simp_all
  obtain bs where bs: "reread h s p = Inr bs"
    using SafeReadBytes_vector_size[OF sz, of h s "address p"]
    by (cases "reread h s p") (auto simp: reread_def)
  show ?case
  proof (cases "bs = [] \<or> length bs \<noteq> length (value' p)")
    case True
    then have "\<not> still_readable h s p" using bs by (auto simp: still_readable_def)
    with True bs Cons.IH[OF rest] show ?thesis by (simp add: reread_def)
  next
    case False
    then have r: "still_readable h s p" using bs by (simp add: still_readable_def)
    have m: "NextScan_match stv cf ''unchanged'' v p bs = Inr (bs = value' p)"
      using False by (auto simp: NextScan_match_def memcmp_eq_def)
    have e: "emitted h s p = \<lparr>address = address p, value' = bs, type' = type' p,
                               previousValue = value' p\<rparr>"
      by (simp add: emitted_def bs)
    show ?thesis
      using False bs r m e Cons.IH[OF rest] by (simp add: reread_def)
  qed
qed

lemma NextScan_changed:
  assumes "previousResults options = Some prev"
    and "\<forall>p\<in>set prev. length (value' p) \<le> vector_max_size"
  shows "NextScan h s stv cf ''changed'' v options =
         Inr (map (emitted h s)
                (filter (\<lambda>p. still_readable h s p \<and> projr (reread h s p) \<noteq> value' p) prev))"
  using assms NextScan_loop_changed[OF assms(2), of h s stv cf v "[]"]
  by (simp add: NextScan_def)

lemma NextScan_unchanged:
  assumes "previousResults options = Some prev"
    and "\<forall>p\<in>set prev. length (value' p) \<le> vector_max_size"
  shows "NextScan h s stv cf ''unchanged'' v options =
         Inr (map (emitted h s)
                (filter (\<lambda>p. still_readable h s p \<and> projr (reread h s p) = value' p) prev))"
  using assms NextScan_loop_unchanged[OF assms(2), of h s stv cf v "[]"]
  by (simp add: NextScan_def)

lemma entry_emitted: "entry_of_emitted (emitted h s p) = entry_of_previous p"
  by (simp add: entry_of_emitted_def entry_of_previous_def emitted_def)

lemma emitted_fields:
  "still_readable h s p \<Longrightarrow>
   address (emitted h s p) = address p \<and> previousValue (emitted h s p) = value' p \<and>
   type' (emitted h s p) = type' p \<and>
   SafeReadBytes h s (address p) (of_nat (length (value' p))) = Inr (value' (emitted h s p))"
  by (auto simp: emitted_def still_readable_def reread_def split: sum.splits)

text \<open>
  Claim C9. On the same previous results and the same memory, the next scans for
  "changed" and for "unchanged" return disjoint results; they come from disjoint sets of
  previous entries, which together are exactly the previous entries that are still
  readable at their recorded size; a changed result's value differs from its previous
  value and an unchanged result's does not; and every result keeps the address and the
  type of its entry, carries the bytes read now as its value and the entry's value as its
  previous value. (The previous results are vectors, so their sizes are within
  \<open>vector_max_size\<close>.)
\<close>

theorem NextScan_changed_unchanged_partition:
  assumes prev: "previousResults options = Some prev"
    and sizes: "\<forall>p\<in>set prev. length (value' p) \<le> vector_max_size"
  shows "\<exists>changed unchanged.
      NextScan h s stv cf ''changed'' v options = Inr changed \<and>
      NextScan h s stv cf ''unchanged'' v options = Inr unchanged \<and>
      set changed \<inter> set unchanged = {} \<and>
      entry_of_emitted ` set changed \<inter> entry_of_emitted ` set unchanged = {} \<and>
      entry_of_emitted ` (set changed \<union> set unchanged) =
        entry_of_previous ` {p \<in> set prev. still_readable h s p} \<and>
      (\<forall>r \<in> set changed. value' r \<noteq> previousValue r) \<and>
      (\<forall>r \<in> set unchanged. value' r = previousValue r) \<and>
      (\<forall>r \<in> set changed \<union> set unchanged. \<exists>p \<in> set prev.
         address r = address p \<and> previousValue r = value' p \<and> type' r = type' p \<and>
         SafeReadBytes h s (address p) (of_nat (length (value' p))) = Inr (value' r))"
proof -
  let ?C = "filter (\<lambda>p. still_readable h s p \<and> projr (reread h s p) \<noteq> value' p) prev"
  let ?U = "filter (\<lambda>p. still_readable h s p \<and> projr (reread h s p) = value' p) prev"
  let ?changed = "map (emitted h s) ?C"
  let ?unchanged = "map (emitted h s) ?U"
  have c: "NextScan h s stv cf ''changed'' v options = Inr ?changed"
    by (rule NextScan_changed[OF prev sizes])
  have u: "NextScan h s stv cf ''unchanged'' v options = Inr ?unchanged"
    by (rule NextScan_unchanged[OF prev sizes])
  have vc: "value' r \<noteq> previousValue r" if "r \<in> set ?changed" for r
    using that by (auto simp: emitted_def)
  have vu: "value' r = previousValue r" if "r \<in> set ?unchanged" for r
    using that by (auto simp: emitted_def)
  have disj: "set ?changed \<inter> set ?unchanged = {}"
    using vc vu by blast
  have ec: "entry_of_emitted ` set ?changed = entry_of_previous ` set ?C"
    by (simp add: image_image entry_emitted)
  have eu: "entry_of_emitted ` set ?unchanged = entry_of_previous ` set ?U"
    by (simp add: image_image entry_emitted)
  have edisj: "entry_of_emitted ` set ?changed \<inter> entry_of_emitted ` set ?unchanged = {}"
  proof -
    have "False" if "p \<in> set ?C" "q \<in> set ?U" "entry_of_previous p = entry_of_previous q" for p q
    proof -
      from that(3) have "address p = address q" "value' p = value' q"
        by (simp_all add: entry_of_previous_def)
      then have "reread h s p = reread h s q" by (simp add: reread_def)
      with that(1,2) \<open>value' p = value' q\<close> show False by simp
    qed
    then show ?thesis unfolding ec eu by blast
  qed
  have un: "entry_of_emitted ` (set ?changed \<union> set ?unchanged) =
        entry_of_previous ` {p \<in> set prev. still_readable h s p}"
  proof -
    have "entry_of_emitted ` (set ?changed \<union> set ?unchanged) =
          entry_of_previous ` (set ?C \<union> set ?U)"
      by (simp only: image_Un ec eu)
    also have "set ?C \<union> set ?U = {p \<in> set prev. still_readable h s p}" by auto
    finally show ?thesis .
  qed
  have src: "\<exists>p \<in> set prev.
         address r = address p \<and> previousValue r = value' p \<and> type' r = type' p \<and>
         SafeReadBytes h s (address p) (of_nat (length (value' p))) = Inr (value' r)"
    if "r \<in> set ?changed \<union> set ?unchanged" for r
  proof -
    from that obtain p where "p \<in> set prev" "still_readable h s p" "r = emitted h s p"
      by auto
    with emitted_fields[of h s p] show ?thesis by blast
  qed
  show ?thesis
    using c u disj edisj un vc vu src by blast
qed

text \<open>The example: the entry that became 9 is the changed one, the entry still 7 the unchanged one.\<close>

theorem NextScan_changed_unchanged_partition_witness:
  "NextScan demo_host (demo_process demo_scanned_memory PAGE_READWRITE 0 [])
     (\<lambda>v t. []) (\<lambda>t a b c. False) ''changed'' []
     ((demo_options 0 0)\<lparr>previousResults := Some demo_previous\<rparr>) =
     Inr [\<lparr>address = 0x1000, value' = [9, 0, 0, 0], type' = ''int32'',
            previousValue = [7, 0, 0, 0]\<rparr>] \<and>
   NextScan demo_host (demo_process demo_scanned_memory PAGE_READWRITE 0 [])
     (\<lambda>v t. []) (\<lambda>t a b c. False) ''unchanged'' []
     ((demo_options 0 0)\<lparr>previousResults := Some demo_previous\<rparr>) =
     Inr [\<lparr>address = 0x1008, value' = [7, 0, 0, 0], type' = ''int32'',
            previousValue = [7, 0, 0, 0]\<rparr>]"
proof -
  let ?s = "demo_process demo_scanned_memory PAGE_READWRITE 0 []"
  let ?options = "(demo_options 0 0)\<lparr>previousResults := Some demo_previous\<rparr>"
  have prev: "previousResults ?options = Some demo_previous"
    by simp
  have sizes: "\<forall>p\<in>set demo_previous. length (value' p) \<le> vector_max_size"
    by (simp add: demo_previous_def vector_max_size_def)
  from NextScan_changed_unchanged_partition[OF prev sizes, of demo_host ?s
        "\<lambda>v t. []" "\<lambda>t a b c. False" "[]"]
  obtain changed unchanged where
    c: "NextScan demo_host ?s (\<lambda>v t. []) (\<lambda>t a b c. False) ''changed'' [] ?options =
        Inr changed" and
    u: "NextScan demo_host ?s (\<lambda>v t. []) (\<lambda>t a b c. False) ''unchanged'' [] ?options =
        Inr unchanged" and
    d: "set changed \<inter> set unchanged = {}"
    by (elim exE conjE) (rule that, assumption+)
  have "NextScan demo_host ?s (\<lambda>v t. []) (\<lambda>t a b c. False) ''changed'' [] ?options =
     Inr [\<lparr>address = 0x1000, value' = [9, 0, 0, 0], type' = ''int32'',
            previousValue = [7, 0, 0, 0]\<rparr>]"
    by (simp add: NextScan_def NextScan_match_def scan_eval demo_previous_def
        demo_scanned_memory_def upt_rec[of _ "numeral _"] del: upt.simps)
  moreover have
    "NextScan demo_host ?s (\<lambda>v t. []) (\<lambda>t a b c. False) ''unchanged'' [] ?options =
     Inr [\<lparr>address = 0x1008, value' = [7, 0, 0, 0], type' = ''int32'',
            previousValue = [7, 0, 0, 0]\<rparr>]"
    by (simp add: NextScan_def NextScan_match_def scan_eval demo_previous_def
        demo_scanned_memory_def upt_rec[of _ "numeral _"] del: upt.simps)
  ultimately show ?thesis
    using c u d by simp
qed


lemma FirstScan_short_block:
  "FirstScan demo_host (demo_process (code_at 0x1000 [7, 0]) PAGE_READWRITE 0 [])
     (\<lambda>v t. [7, 0, 0, 0]) ''7'' ''int32'' (demo_options 0x1000 0x1002) [demo_region] =
   Some (Inl out_of_bounds)"
  by (simp add: FirstScan_def FirstScan_block.simps scan_eval upt_rec[of _ "numeral _"]
      del: upt.simps)

lemma ScanForValue_short_block:
  "ScanForValue demo_host (demo_process (code_at 0x1000 [7, 0]) PAGE_READWRITE 0 [])
     [7, 0, 0, 0] (demo_options 0x1000 0x1002) [demo_region] =
   Some (Inl out_of_bounds)"
  by (simp add: ScanForValue_def ScanForValue_block.simps CompareBytes_def scan_eval
      upt_rec[of _ "numeral _"] del: upt.simps)

lemma PatternScanAll_short_block:
  "PatternScanAll demo_host (demo_process (code_at 0x1000 [0xDE, 0xAD]) PAGE_READWRITE 0 [])
     0x1000 0x2000 [0xDE, 0xAD, 0xBE, 0xEF] ''xxxx'' 0x1000 0x1002 [demo_region] =
   Some (Inl out_of_bounds)"
  by (simp add: PatternScanAll_def PatternScanAll_block.simps ComparePattern_def scan_eval
      upt_rec[of _ "numeral _"] del: upt.simps)

lemma FirstScan_block_short:
  "FirstScan_block [7, 0] [7, 0, 0, 0] ty 1 start 0 [] = Some (Inl out_of_bounds)"
  by (simp add: FirstScan_block.simps memcmp_eq_def)

lemma ScanForValue_block_short:
  "ScanForValue_block [7, 0] [7, 0, 0, 0] 1 start 0 [] = Some (Inl out_of_bounds)"
  by (simp add: ScanForValue_block.simps CompareBytes_def memcmp_eq_def)

lemma PatternScanAll_block_short:
  "PatternScanAll_block [0xDE, 0xAD] [0xDE, 0xAD, 0xBE, 0xEF] ''xxxx'' start 0 [] =
   Some (Inl out_of_bounds)"
  by (simp add: PatternScanAll_block.simps ComparePattern_def)

text \<open>
  Claim C10 (the code departs from it). The claim: in the scan loops of \<^verbatim>\<open>FirstScan\<close>,
  \<^verbatim>\<open>ScanForValue\<close> and \<^verbatim>\<open>PatternScanAll\<close> a position is tested only when the needle
  fits in the block behind it, and a block shorter than the needle is not tested at all.
  The bound \<^verbatim>\<open>regionData.size() - valueBytes.size()\<close> is a difference of \<^verbatim>\<open>size_t\<close>: on a
  block shorter than the needle it wraps to a huge value, position 0 is tested and the
  comparison reads past the end of the block. Evaluated here: a scan of the two bytes
  \<^verbatim>\<open>[0x1000, 0x1002)\<close> for a four-byte value, in each of the three functions, and the
  three loops on a two-byte block.
\<close>

theorem scan_loops_bound_wraps:
  "FirstScan demo_host (demo_process (code_at 0x1000 [7, 0]) PAGE_READWRITE 0 [])
     (\<lambda>v t. [7, 0, 0, 0]) ''7'' ''int32'' (demo_options 0x1000 0x1002) [demo_region] =
     Some (Inl out_of_bounds) \<and>
   ScanForValue demo_host (demo_process (code_at 0x1000 [7, 0]) PAGE_READWRITE 0 [])
     [7, 0, 0, 0] (demo_options 0x1000 0x1002) [demo_region] =
     Some (Inl out_of_bounds) \<and>
   PatternScanAll demo_host (demo_process (code_at 0x1000 [0xDE, 0xAD]) PAGE_READWRITE 0 [])
     0x1000 0x2000 [0xDE, 0xAD, 0xBE, 0xEF] ''xxxx'' 0x1000 0x1002 [demo_region] =
     Some (Inl out_of_bounds) \<and>
   FirstScan_block [7, 0] [7, 0, 0, 0] ty 1 start 0 [] = Some (Inl out_of_bounds) \<and>
   ScanForValue_block [7, 0] [7, 0, 0, 0] 1 start 0 [] = Some (Inl out_of_bounds) \<and>
   PatternScanAll_block [0xDE, 0xAD] [0xDE, 0xAD, 0xBE, 0xEF] ''xxxx'' start 0 [] =
     Some (Inl out_of_bounds)"
  by (intro conjI FirstScan_short_block ScanForValue_short_block PatternScanAll_short_block
      FirstScan_block_short ScanForValue_block_short PatternScanAll_block_short)

section \<open>Properties of the detour engine\<close>

lemma memcpy_snoc:
  "memcpy m a (bs @ [b]) y = (if y = a + of_nat (length bs) then b else memcpy m a bs y)"
proof (induction bs arbitrary: m a)
  case Nil
  then show ?case by simp
next
  case (Cons x bs)
  have "memcpy m a ((x # bs) @ [b]) y = memcpy (m(a := x)) (a + 1) (bs @ [b]) y"
    by simp
  also have "\<dots> = (if y = a + 1 + of_nat (length bs) then b
                    else memcpy (m(a := x)) (a + 1) bs y)"
    by (rule Cons.IH)
  also have "\<dots> = (if y = a + of_nat (length (x # bs)) then b else memcpy m a (x # bs) y)"
    by (simp add: ac_simps)
  finally show ?case .
qed

lemma read_bytes_0: "read_bytes m a 0 = []"
  by (simp add: read_bytes_def)

lemma read_bytes_Suc: "read_bytes m a (Suc n) = read_bytes m a n @ [m (a + of_nat n)]"
  by (simp add: read_bytes_def)

lemma length_read_bytes: "length (read_bytes m a n) = n"
  by (simp add: read_bytes_def)

text \<open>Copying back what was read at the same place gives those bytes back.\<close>

lemma memcpy_read_bytes_at:
  "i < n \<Longrightarrow> memcpy m a (read_bytes m0 a n) (a + of_nat i) = m0 (a + of_nat i)"
proof (induction n)
  case 0
  then show ?case by simp
next
  case (Suc n)
  show ?case
  proof (cases "a + of_nat i = a + of_nat n")
    case True
    then show ?thesis
      by (simp add: read_bytes_Suc memcpy_snoc length_read_bytes)
  next
    case False
    then have "i \<noteq> n" by auto
    with Suc.prems have "i < n" by simp
    with Suc.IH False show ?thesis
      by (simp add: read_bytes_Suc memcpy_snoc length_read_bytes)
  qed
qed

lemma memcpy_restores:
  assumes "bs = read_bytes m0 a n"
  shows "read_bytes (memcpy m a bs) a n = bs"
proof -
  have "read_bytes (memcpy m a bs) a n = map (\<lambda>i. memcpy m a bs (a + of_nat i)) [0..<n]"
    by (simp add: read_bytes_def)
  also have "\<dots> = map (\<lambda>i. m0 (a + of_nat i)) [0..<n]"
    by (rule map_cong) (simp_all add: assms memcpy_read_bytes_at)
  also have "\<dots> = bs"
    by (simp add: assms read_bytes_def)
  finally show ?thesis .
qed

lemma find_trampoline_append:
  "\<not> list_ex (\<lambda>t. originalFunction t = T) ts \<Longrightarrow> originalFunction e = T \<Longrightarrow>
   find_trampoline (ts @ [e]) T = Some e"
  by (induction ts) (auto simp: find_trampoline_def)

lemma erase_found_append:
  "\<not> list_ex (\<lambda>t. originalFunction t = T) ts \<Longrightarrow> originalFunction e = T \<Longrightarrow>
   erase_found (ts @ [e]) T = ts"
  by (induction ts) auto

lemma set_found_active_append:
  "\<not> list_ex (\<lambda>t. originalFunction t = T) ts \<Longrightarrow> originalFunction e = T \<Longrightarrow>
   set_found_active (ts @ [e]) T b = ts @ [e\<lparr>isActive := b\<rparr>]"
  by (induction ts) auto

text \<open>What a successful install has done.\<close>

lemma InstallHook_success:
  assumes "InstallHook h s T D ty = Some (True, out, s1)"
  shows "\<exists>n tramp os1.
           \<not> IsHooked s T \<and>
           CreateTrampoline h (os s) T n = (os1, tramp) \<and> tramp \<noteq> 0 \<and>
           out = Some tramp \<and>
           trampolines s1 = trampolines s @
             [\<lparr>originalFunction = T, trampolineAddress = tramp, originalSize = n,
               originalBytes = read_bytes (memory s) T n, isActive = True\<rparr>]"
  using assms
  by (auto simp: InstallHook_def Let_def split: if_splits option.splits prod.splits)


text \<open>A successful install of the absolute jump, step by step.\<close>

lemma InstallHook_installs:
  assumes ty: "ty = AUTO \<or> ty = JMP_ABSOLUTE"
    and fresh: "\<not> IsHooked s T"
    and count: "count_prologue (memory s) T 14 0 = Some (Some n)"
    and alloc: "CreateTrampoline h (os s) T n = (os1, tramp)" "tramp \<noteq> 0"
    and build: "BuildTrampoline (memory s) tramp (read_bytes (memory s) T n) n T tramp = Some m1"
    and prot: "SetMemoryProtection h os1 T 14 PAGE_EXECUTE_READWRITE = Some (os2, old)"
  shows "InstallHook h s T D ty =
         Some (True, Some tramp,
               s\<lparr>memory := (if 14 < n
                             then memset (fst (WriteJumpAbsolute m1 T D)) (T + 14) 0x90 (n - 14)
                             else fst (WriteJumpAbsolute m1 T D)),
                 os := (case SetMemoryProtection h os2 T 14 old of
                          None \<Rightarrow> os2 | Some (os3, x) \<Rightarrow> os3),
                 trampolines := trampolines s @
                   [\<lparr>originalFunction = T, trampolineAddress = tramp, originalSize = n,
                     originalBytes = read_bytes (memory s) T n, isActive = True\<rparr>]\<rparr>)"
  using ty
proof
  assume "ty = AUTO"
  with fresh count alloc build prot show ?thesis
    by (simp add: InstallHook_def CalculateHookSize_def is64Bit_def WriteJumpAbsolute_def
        Let_def of_nat_numeral)
next
  assume "ty = JMP_ABSOLUTE"
  with fresh count alloc build prot show ?thesis
    by (simp add: InstallHook_def CalculateHookSize_def is64Bit_def WriteJumpAbsolute_def
        Let_def of_nat_numeral)
qed

lemma RemoveHook_found:
  assumes "find_trampoline (trampolines s) T = Some e"
  shows "RemoveHook h s T =
         (case SetMemoryProtection h (os s) T (originalSize e) PAGE_EXECUTE_READWRITE of
            None \<Rightarrow> (False, s)
          | Some (os1, old) \<Rightarrow>
              (True, s\<lparr>memory := memcpy (memory s) T (take (originalSize e) (originalBytes e)),
                       os := VirtualFree h
                               (case SetMemoryProtection h os1 T (originalSize e) old of
                                  None \<Rightarrow> os1 | Some (os2, x) \<Rightarrow> os2)
                               (trampolineAddress e),
                       trampolines := erase_found (trampolines s) T\<rparr>))"
  using assms by (simp add: RemoveHook_def Let_def split: option.splits)

lemmas length_eval =
  view_def GetInstructionLength_def GetLength_def skip_prefixes.simps IsPrefix_def
  IsRexPrefix_def GetOpcodeSize_def opcode_and_size_def hasModRM_def GetModRMSize_def
  count_prologue.simps code_at_def

lemma demo_count:
  "count_prologue (code_at 0x1000 demo_prologue) 0x1000 14 0 = Some (Some 14)"
  by (simp add: length_eval demo_prologue_def)

lemma demo_build:
  "BuildTrampoline (code_at 0x1000 demo_prologue) 0x20000
     (read_bytes (code_at 0x1000 demo_prologue) 0x1000 14) 14 0x1000 0x20000 \<noteq> None"
  by code_simp

lemma DisableHook_found:
  assumes "find_trampoline (trampolines s) T = Some e" "isActive e"
  shows "DisableHook h s T =
         (case SetMemoryProtection h (os s) T (originalSize e) PAGE_EXECUTE_READWRITE of
            None \<Rightarrow> (False, s)
          | Some (os1, old) \<Rightarrow>
              (True, s\<lparr>memory := memcpy (memory s) T (take (originalSize e) (originalBytes e)),
                       os := (case SetMemoryProtection h os1 T (originalSize e) old of
                                None \<Rightarrow> os1 | Some (os2, x) \<Rightarrow> os2),
                       trampolines := set_found_active (trampolines s) T False\<rparr>))"
  using assms by (simp add: DisableHook_def Let_def split: option.splits)

lemma demo_install_at:
  assumes count: "count_prologue (code_at 0x1000 p) 0x1000 14 0 = Some (Some 14)"
    and build: "BuildTrampoline (code_at 0x1000 p) 0x20000
                  (read_bytes (code_at 0x1000 p) 0x1000 14) 14 0x1000 0x20000 = Some m1"
  shows "InstallHook demo_host (demo_process (code_at 0x1000 p) PAGE_EXECUTE_READ (Suc (Suc k)) [])
           0x1000 0x2000 AUTO =
     Some (True, Some 0x20000,
       \<lparr>memory = fst (WriteJumpAbsolute m1 0x1000 0x2000),
        os = \<lparr>prot = PAGE_EXECUTE_READ, vp_left = k, freed = [], faulty = []\<rparr>,
        trampolines =
          [\<lparr>originalFunction = 0x1000, trampolineAddress = 0x20000, originalSize = 14,
            originalBytes = read_bytes (code_at 0x1000 p) 0x1000 14,
            isActive = True\<rparr>]\<rparr>)"
proof -
  let ?s = "demo_process (code_at 0x1000 p) PAGE_EXECUTE_READ (Suc (Suc k)) []"
  have fresh: "\<not> IsHooked ?s 0x1000"
    by (simp add: IsHooked_def demo_process_def)
  have count': "count_prologue (memory ?s) 0x1000 14 0 = Some (Some 14)"
    by (simp add: demo_process_def count)
  have alloc: "CreateTrampoline demo_host (os ?s) 0x1000 14 = (os ?s, 0x20000)"
    by (simp add: CreateTrampoline_def demo_host_def)
  have build': "BuildTrampoline (memory ?s) 0x20000 (read_bytes (memory ?s) 0x1000 14) 14
                  0x1000 0x20000 = Some m1"
    using build by (simp add: demo_process_def)
  have prot: "SetMemoryProtection demo_host (os ?s) 0x1000 14 PAGE_EXECUTE_READWRITE =
              Some (\<lparr>prot = PAGE_EXECUTE_READWRITE, vp_left = Suc k, freed = [], faulty = []\<rparr>,
                    PAGE_EXECUTE_READ)"
    by (simp add: SetMemoryProtection_def demo_host_def demo_process_def)
  show ?thesis
    using InstallHook_installs[of AUTO ?s "0x1000" 14 demo_host "os ?s" "0x20000" m1 _ _ "0x2000",
        OF _ fresh count' alloc _ build' prot]
    by (simp add: SetMemoryProtection_def demo_host_def demo_process_def)
qed

lemma demo_install:
  "\<exists>m1. InstallHook demo_host (demo_target (Suc (Suc k))) 0x1000 0x2000 AUTO =
     Some (True, Some 0x20000,
       \<lparr>memory = fst (WriteJumpAbsolute m1 0x1000 0x2000),
        os = \<lparr>prot = PAGE_EXECUTE_READ, vp_left = k, freed = [], faulty = []\<rparr>,
        trampolines =
          [\<lparr>originalFunction = 0x1000, trampolineAddress = 0x20000, originalSize = 14,
            originalBytes = read_bytes (code_at 0x1000 demo_prologue) 0x1000 14,
            isActive = True\<rparr>]\<rparr>)"
proof -
  from demo_build obtain m1 where
    "BuildTrampoline (code_at 0x1000 demo_prologue) 0x20000
       (read_bytes (code_at 0x1000 demo_prologue) 0x1000 14) 14 0x1000 0x20000 = Some m1"
    by blast
  from demo_install_at[OF demo_count this] show ?thesis
    unfolding demo_target_def by blast
qed

lemma read_bytes_numeral:
  "read_bytes m a (numeral k) =
   read_bytes m a (pred_numeral k) @ [m (a + of_nat (pred_numeral k))]"
  by (simp add: numeral_eq_Suc read_bytes_Suc)

lemma demo_original:
  "read_bytes (code_at 0x1000 demo_prologue) 0x1000 14 =
   [0x55, 0x48, 0x89, 0xE5, 0x48, 0x83, 0xEC, 0x20, 0x90, 0x90, 0x90, 0x90, 0x90, 0x90]"
  by (simp add: read_bytes_numeral read_bytes_Suc read_bytes_0 code_at_def demo_prologue_def)

lemma demo_hook_bytes:
  "read_bytes (fst (WriteJumpAbsolute m 0x1000 0x2000)) 0x1000 14 =
   [0xFF, 0x25, 0x00, 0x00, 0x00, 0x00, 0x00, 0x20, 0x00, 0x00, 0x00, 0x00, 0x00, 0x00]"
  by (simp add: read_bytes_numeral read_bytes_Suc read_bytes_0 WriteJumpAbsolute_def
      bytes_of_u64_def)

text \<open>
  Claim C5, as stated: after a successful install on \<open>T\<close>, a remove of \<open>T\<close> returns true,
  writes the original prologue back, frees the trampoline and drops the registry entry.
  Counterexample: \<^verbatim>\<open>RemoveHook\<close> first asks for read/write/execute on the target and
  returns false when the system refuses, before it has restored anything. Here the system
  grants the two protection changes of the install and refuses the next one: the install
  succeeds, the remove returns false and leaves the state as it was, the hook still
  registered.
\<close>

theorem RemoveHook_protection_refused:
  "\<exists>out s1. InstallHook demo_host (demo_target 2) 0x1000 0x2000 AUTO = Some (True, out, s1) \<and>
             RemoveHook demo_host s1 0x1000 = (False, s1) \<and> IsHooked s1 0x1000"
proof -
  from demo_install[of 0] obtain m1 where
    "InstallHook demo_host (demo_target 2) 0x1000 0x2000 AUTO =
     Some (True, Some 0x20000,
       \<lparr>memory = fst (WriteJumpAbsolute m1 0x1000 0x2000),
        os = \<lparr>prot = PAGE_EXECUTE_READ, vp_left = 0, freed = [], faulty = []\<rparr>,
        trampolines =
          [\<lparr>originalFunction = 0x1000, trampolineAddress = 0x20000, originalSize = 14,
            originalBytes = read_bytes (code_at 0x1000 demo_prologue) 0x1000 14,
            isActive = True\<rparr>]\<rparr>)"
    by (auto simp: numeral_2_eq_2)
  then show ?thesis
    by (simp add: RemoveHook_def find_trampoline_def SetMemoryProtection_def demo_host_def
        IsHooked_def)
qed

text \<open>
  Claim C5, amended to what the code does. After a successful install on \<open>T\<close> the
  registry's entry for \<open>T\<close> holds the bytes that were at \<open>T\<close> before the install and the
  address of the trampoline, which is the address the allocation returned and the one
  published to the caller. A remove of \<open>T\<close> whose protection change the system refuses
  returns false and changes nothing. A remove whose protection change succeeds returns
  true; afterwards the bytes at \<open>T\<close> are again the saved original bytes, the trampoline's
  address has been passed to \<^verbatim>\<open>VirtualFree\<close>, the registry is what it was before the
  install, and \<open>T\<close> is not hooked.
\<close>

theorem InstallHook_then_RemoveHook:
  assumes "InstallHook h s T D ty = Some (True, out, s1)"
  shows "\<exists>e os0.
           find_trampoline (trampolines s1) T = Some e \<and>
           CreateTrampoline h (os s) T (originalSize e) = (os0, trampolineAddress e) \<and>
           out = Some (trampolineAddress e) \<and>
           originalBytes e = read_bytes (memory s) T (originalSize e) \<and>
           (case SetMemoryProtection h (os s1) T (originalSize e) PAGE_EXECUTE_READWRITE of
              None \<Rightarrow> RemoveHook h s1 T = (False, s1)
            | Some (os2, old) \<Rightarrow>
                fst (RemoveHook h s1 T) \<and>
                read_bytes (memory (snd (RemoveHook h s1 T))) T (originalSize e) =
                  originalBytes e \<and>
                os (snd (RemoveHook h s1 T)) =
                  VirtualFree h
                    (case SetMemoryProtection h os2 T (originalSize e) old of
                       None \<Rightarrow> os2 | Some (os3, x) \<Rightarrow> os3)
                    (trampolineAddress e) \<and>
                trampolines (snd (RemoveHook h s1 T)) = trampolines s \<and>
                \<not> IsHooked (snd (RemoveHook h s1 T)) T)"
proof -
  from InstallHook_success[OF assms] obtain n tramp os1 where
    fresh: "\<not> IsHooked s T" and
    alloc: "CreateTrampoline h (os s) T n = (os1, tramp)" and
    out: "out = Some tramp" and
    ts: "trampolines s1 = trampolines s @
           [\<lparr>originalFunction = T, trampolineAddress = tramp, originalSize = n,
             originalBytes = read_bytes (memory s) T n, isActive = True\<rparr>]"
    by blast
  let ?e = "\<lparr>originalFunction = T, trampolineAddress = tramp, originalSize = n,
             originalBytes = read_bytes (memory s) T n, isActive = True\<rparr>"
  from fresh have nohit: "\<not> list_ex (\<lambda>t. originalFunction t = T) (trampolines s)"
    by (simp add: IsHooked_def)
  have found: "find_trampoline (trampolines s1) T = Some ?e"
    using nohit by (simp add: ts find_trampoline_append)
  have erased: "erase_found (trampolines s1) T = trampolines s"
    using nohit by (simp add: ts erase_found_append)
  have restored: "read_bytes (memcpy (memory s1) T (take n (read_bytes (memory s) T n))) T n =
                  read_bytes (memory s) T n"
    by (simp add: memcpy_restores length_read_bytes)
  have rest: "case SetMemoryProtection h (os s1) T (originalSize ?e) PAGE_EXECUTE_READWRITE of
              None \<Rightarrow> RemoveHook h s1 T = (False, s1)
            | Some (os2, old) \<Rightarrow>
                fst (RemoveHook h s1 T) \<and>
                read_bytes (memory (snd (RemoveHook h s1 T))) T (originalSize ?e) =
                  originalBytes ?e \<and>
                os (snd (RemoveHook h s1 T)) =
                  VirtualFree h
                    (case SetMemoryProtection h os2 T (originalSize ?e) old of
                       None \<Rightarrow> os2 | Some (os3, x) \<Rightarrow> os3)
                    (trampolineAddress ?e) \<and>
                trampolines (snd (RemoveHook h s1 T)) = trampolines s \<and>
                \<not> IsHooked (snd (RemoveHook h s1 T)) T"
    using nohit restored erased
    by (simp add: RemoveHook_found[OF found] IsHooked_def split: option.splits)
  show ?thesis
    using found alloc out rest
    by (intro exI[of _ ?e] exI[of _ os1]) simp
qed

text \<open>
  The example: install and remove on the target of scenario 5; the fourteen bytes at the
  target are the original ones again, and the trampoline at \<^verbatim>\<open>0x20000\<close> is freed.
\<close>

theorem InstallHook_then_RemoveHook_witness:
  "\<exists>out s1. InstallHook demo_host (demo_target 4) 0x1000 0x2000 AUTO = Some (True, out, s1) \<and>
             fst (RemoveHook demo_host s1 0x1000) \<and>
             read_bytes (memory (snd (RemoveHook demo_host s1 0x1000))) 0x1000 14 =
               [0x55, 0x48, 0x89, 0xE5, 0x48, 0x83, 0xEC, 0x20,
                0x90, 0x90, 0x90, 0x90, 0x90, 0x90] \<and>
             freed (os (snd (RemoveHook demo_host s1 0x1000))) = [0x20000] \<and>
             \<not> IsHooked (snd (RemoveHook demo_host s1 0x1000)) 0x1000"
proof -
  from demo_install[of 2] obtain m1 where
    inst: "InstallHook demo_host (demo_target 4) 0x1000 0x2000 AUTO =
     Some (True, Some 0x20000,
       \<lparr>memory = fst (WriteJumpAbsolute m1 0x1000 0x2000),
        os = \<lparr>prot = PAGE_EXECUTE_READ, vp_left = 2, freed = [], faulty = []\<rparr>,
        trampolines =
          [\<lparr>originalFunction = 0x1000, trampolineAddress = 0x20000, originalSize = 14,
            originalBytes = read_bytes (code_at 0x1000 demo_prologue) 0x1000 14,
            isActive = True\<rparr>]\<rparr>)" (is "_ = Some (True, _, ?s1)")
    by (auto simp: eval_nat_numeral)
  from InstallHook_then_RemoveHook[OF inst] obtain e where
    e: "find_trampoline (trampolines ?s1) 0x1000 = Some e" and
    bytes: "originalBytes e = read_bytes (memory (demo_target 4)) 0x1000 (originalSize e)" and
    rest: "case SetMemoryProtection demo_host (os ?s1) 0x1000 (originalSize e)
                  PAGE_EXECUTE_READWRITE of
              None \<Rightarrow> RemoveHook demo_host ?s1 0x1000 = (False, ?s1)
            | Some (os2, old) \<Rightarrow>
                fst (RemoveHook demo_host ?s1 0x1000) \<and>
                read_bytes (memory (snd (RemoveHook demo_host ?s1 0x1000))) 0x1000
                  (originalSize e) = originalBytes e \<and>
                os (snd (RemoveHook demo_host ?s1 0x1000)) =
                  VirtualFree demo_host
                    (case SetMemoryProtection demo_host os2 0x1000 (originalSize e) old of
                       None \<Rightarrow> os2 | Some (os3, x) \<Rightarrow> os3)
                    (trampolineAddress e) \<and>
                trampolines (snd (RemoveHook demo_host ?s1 0x1000)) = trampolines (demo_target 4) \<and>
                \<not> IsHooked (snd (RemoveHook demo_host ?s1 0x1000)) 0x1000"
    by (elim exE conjE) (rule that, assumption+)
  from e have e_def: "e = \<lparr>originalFunction = 0x1000, trampolineAddress = 0x20000,
      originalSize = 14,
      originalBytes = read_bytes (code_at 0x1000 demo_prologue) 0x1000 14, isActive = True\<rparr>"
    by (simp add: find_trampoline_def)
  have "fst (RemoveHook demo_host ?s1 0x1000) \<and>
        read_bytes (memory (snd (RemoveHook demo_host ?s1 0x1000))) 0x1000 14 =
          read_bytes (code_at 0x1000 demo_prologue) 0x1000 14 \<and>
        freed (os (snd (RemoveHook demo_host ?s1 0x1000))) = [0x20000] \<and>
        \<not> IsHooked (snd (RemoveHook demo_host ?s1 0x1000)) 0x1000"
    using rest unfolding e_def
    by (simp add: SetMemoryProtection_def demo_host_def)
  with inst show ?thesis
    by (simp add: demo_original)
qed

lemma EnableHook_memory: "memory (snd (EnableHook s T)) = memory s"
  by (simp add: EnableHook_def split: option.splits)

text \<open>
  Claim C6 (the code departs from it). The claim: enabling a hook that was disabled
  writes the hook bytes again, so that the target starts with the detour jump.
  \<^verbatim>\<open>EnableHook\<close> sets the entry's flag and returns true; where the source says
  \<^verbatim>\<open>// Re-install hook logic here\<close> it writes nothing (\<open>EnableHook_memory\<close>). Evaluated
  here on the target of scenario 5: after the install the target holds the absolute
  jump; after disable and enable, both returning true and the entry active, it holds the
  original prologue.
\<close>

theorem EnableHook_leaves_original_prologue:
  "\<exists>out s1 s2 s3.
     InstallHook demo_host (demo_target 4) 0x1000 0x2000 AUTO = Some (True, out, s1) \<and>
     read_bytes (memory s1) 0x1000 14 =
       [0xFF, 0x25, 0x00, 0x00, 0x00, 0x00, 0x00, 0x20, 0x00, 0x00, 0x00, 0x00, 0x00, 0x00] \<and>
     DisableHook demo_host s1 0x1000 = (True, s2) \<and>
     EnableHook s2 0x1000 = (True, s3) \<and>
     map isActive (trampolines s3) = [True] \<and>
     read_bytes (memory s3) 0x1000 14 =
       [0x55, 0x48, 0x89, 0xE5, 0x48, 0x83, 0xEC, 0x20, 0x90, 0x90, 0x90, 0x90, 0x90, 0x90]"
proof -
  from demo_install[of 2] obtain m1 where
    inst: "InstallHook demo_host (demo_target 4) 0x1000 0x2000 AUTO =
     Some (True, Some 0x20000,
       \<lparr>memory = fst (WriteJumpAbsolute m1 0x1000 0x2000),
        os = \<lparr>prot = PAGE_EXECUTE_READ, vp_left = 2, freed = [], faulty = []\<rparr>,
        trampolines =
          [\<lparr>originalFunction = 0x1000, trampolineAddress = 0x20000, originalSize = 14,
            originalBytes = read_bytes (code_at 0x1000 demo_prologue) 0x1000 14,
            isActive = True\<rparr>]\<rparr>)" (is "_ = Some (True, _, ?s1)")
    by (auto simp: eval_nat_numeral)
  let ?e = "\<lparr>originalFunction = 0x1000, trampolineAddress = 0x20000, originalSize = 14,
            originalBytes = read_bytes (code_at 0x1000 demo_prologue) 0x1000 14,
            isActive = True\<rparr>"
  let ?orig = "read_bytes (code_at 0x1000 demo_prologue) 0x1000 14"
  let ?s2 = "\<lparr>memory = memcpy (fst (WriteJumpAbsolute m1 0x1000 0x2000)) 0x1000 ?orig,
        os = \<lparr>prot = PAGE_EXECUTE_READ, vp_left = 0, freed = [], faulty = []\<rparr>,
        trampolines = [?e\<lparr>isActive := False\<rparr>]\<rparr>"
  let ?s3 = "?s2\<lparr>trampolines := [?e]\<rparr>"
  have hooked: "read_bytes (memory ?s1) 0x1000 14 =
       [0xFF, 0x25, 0x00, 0x00, 0x00, 0x00, 0x00, 0x20, 0x00, 0x00, 0x00, 0x00, 0x00, 0x00]"
    by (simp add: demo_hook_bytes)
  have found: "find_trampoline (trampolines ?s1) 0x1000 = Some ?e"
    by (simp add: find_trampoline_def)
  have dis: "DisableHook demo_host ?s1 0x1000 = (True, ?s2)"
    by (simp add: DisableHook_found[OF found] SetMemoryProtection_def demo_host_def
        length_read_bytes)
  have en: "EnableHook ?s2 0x1000 = (True, ?s3)"
    by (simp add: EnableHook_def find_trampoline_def)
  have orig_bytes: "read_bytes (memory ?s3) 0x1000 14 =
       [0x55, 0x48, 0x89, 0xE5, 0x48, 0x83, 0xEC, 0x20, 0x90, 0x90, 0x90, 0x90, 0x90, 0x90]"
    using memcpy_restores[of ?orig "code_at 0x1000 demo_prologue" "0x1000" 14
        "fst (WriteJumpAbsolute m1 0x1000 0x2000)"]
    by (simp add: demo_original)
  show ?thesis
    using inst hooked dis en orig_bytes
    by (intro exI[of _ "Some 0x20000"] exI[of _ ?s1] exI[of _ ?s2] exI[of _ ?s3]) simp
qed

lemma short_jump_count:
  "count_prologue (code_at 0x1000 [0xEB, 0x05]) 0x1000 14 0 = Some (Some 14)"
  by (simp add: length_eval)

lemma short_jump_build:
  "map_option (\<lambda>m. read_bytes m 0x20000 2)
     (BuildTrampoline (code_at 0x1000 [0xEB, 0x05]) 0x20000
        (read_bytes (code_at 0x1000 [0xEB, 0x05]) 0x1000 14) 14 0x1000 0x20000) =
   Some [0xEB, 0x05]"
  by code_simp

lemma jcc_count:
  "count_prologue (code_at 0x1000 [0x74, 0x05]) 0x1000 14 0 = Some (Some 14)"
  by (simp add: length_eval)

lemma jcc_build:
  "map_option (\<lambda>m. read_bytes m 0x20000 2)
     (BuildTrampoline (code_at 0x1000 [0x74, 0x05]) 0x20000
        (read_bytes (code_at 0x1000 [0x74, 0x05]) 0x1000 14) 14 0x1000 0x20000) =
   Some [0x74, 0x05]"
  by code_simp

lemma short_jump_installed:
  assumes count: "count_prologue (code_at 0x1000 p) 0x1000 14 0 = Some (Some 14)"
    and build: "map_option (\<lambda>m. read_bytes m 0x20000 2)
     (BuildTrampoline (code_at 0x1000 p) 0x20000
        (read_bytes (code_at 0x1000 p) 0x1000 14) 14 0x1000 0x20000) = Some bs"
  shows "\<exists>s1. InstallHook demo_host (demo_process (code_at 0x1000 p) PAGE_EXECUTE_READ 2 [])
            0x1000 0x2000 AUTO = Some (True, Some 0x20000, s1) \<and>
          read_bytes (memory s1) 0x20000 2 = bs"
proof -
  from build obtain m1 where
    m1: "BuildTrampoline (code_at 0x1000 p) 0x20000
        (read_bytes (code_at 0x1000 p) 0x1000 14) 14 0x1000 0x20000 = Some m1"
    and bs: "read_bytes m1 0x20000 2 = bs"
    by auto
  have "read_bytes (fst (WriteJumpAbsolute m1 0x1000 0x2000)) 0x20000 2 = read_bytes m1 0x20000 2"
    by (simp add: read_bytes_numeral read_bytes_Suc read_bytes_0 WriteJumpAbsolute_def
        bytes_of_u64_def)
  with demo_install_at[OF count m1, of 0] bs show ?thesis
    by (simp add: numeral_2_eq_2)
qed

text \<open>\<^verbatim>\<open>RelocateInstruction\<close> never reports a failure, and leaves a short jump as it is.\<close>

lemma RelocateInstruction_never_fails: "snd (RelocateInstruction m i old new) = True"
  by (simp add: RelocateInstruction_def Let_def)

lemma RelocateInstruction_short_jump:
  "m i = 0xEB \<or> m i AND 0xF0 = 0x70 \<Longrightarrow> RelocateInstruction m i old new = (m, True)"
  by (auto simp: RelocateInstruction_def)

text \<open>
  Claim C7 (the code departs from it). The claim: a prologue that holds a short relative
  jump makes the install fail. \<^verbatim>\<open>RelocateInstruction\<close> knows \<^verbatim>\<open>E8\<close>, \<^verbatim>\<open>E9\<close> and
  \<^verbatim>\<open>0F 8x\<close> and returns true on everything else, and \<^verbatim>\<open>BuildTrampoline\<close> drops its result.
  Evaluated here: a target that starts with \<^verbatim>\<open>EB 05\<close> (\<^verbatim>\<open>jmp short\<close>) and one that starts
  with \<^verbatim>\<open>74 05\<close> (\<^verbatim>\<open>je short\<close>); in both the install returns true and the trampoline
  starts with the jump's two bytes, copied as they were.
\<close>

theorem InstallHook_accepts_short_jumps:
  "(\<exists>s1. InstallHook demo_host (demo_process (code_at 0x1000 [0xEB, 0x05]) PAGE_EXECUTE_READ 2 [])
            0x1000 0x2000 AUTO = Some (True, Some 0x20000, s1) \<and>
          read_bytes (memory s1) 0x20000 2 = [0xEB, 0x05]) \<and>
   (\<exists>s1. InstallHook demo_host (demo_process (code_at 0x1000 [0x74, 0x05]) PAGE_EXECUTE_READ 2 [])
            0x1000 0x2000 AUTO = Some (True, Some 0x20000, s1) \<and>
          read_bytes (memory s1) 0x20000 2 = [0x74, 0x05])"
  by (intro conjI short_jump_installed[OF short_jump_count short_jump_build]
      short_jump_installed[OF jcc_count jcc_build])

end
